theory Spec2Isabelle
  imports Complex_Main "HOL-Library.Word" "HOL-Library.Log_Nat"
begin

unbundle bit_operations_syntax

section \<open>Numbers\<close>

text \<open>
  A JavaScript number is modelled as a \<open>real\<close>, and the geometry is computed exactly.
  This agrees with the program wherever the values are integers or half-integers of
  magnitude at most \<open>2 ^ 53\<close>, which covers the instance count, the bar length and the
  bar centre on a canvas of any such width. Beyond, the program rounds every result to
  binary64; \<open>round64\<close> is that rounding, and \<open>nextIntBet_binary64\<close> below is the range
  function with its roundings written out.

  Where the program divides by zero it obtains an infinity or NaN, which no \<open>real\<close>
  represents. The quotients of \<open>calcBarAngleRange\<close>, whose divisor is 0 when the bar
  centre lies on a vertical edge of the frame, are followed as the program computes
  them (\<open>atanQuotient\<close>). In \<open>transform\<close> and \<open>calculateApproximateCentroid\<close> HOL's
  \<open>a / 0 = 0\<close> stands in, and no statement below concerns the value of such a quotient.

  The words of the generator are integers or NaN (the results of \<open>parseInt\<close>), a type
  of their own.
\<close>

datatype jsint = NaN | Num int

text \<open>\<open>ToInt32\<close>, applied by every bitwise operator: NaN becomes 0, an integer wraps.\<close>

fun toInt32 :: "jsint \<Rightarrow> 32 word" where
  "toInt32 NaN = 0"
| "toInt32 (Num n) = word_of_int n"

text \<open>The operator \<open>%\<close> on numbers: the quotient is truncated towards zero.\<close>

definition js_trunc :: "real \<Rightarrow> int" where
  "js_trunc r = (if r < 0 then \<lceil>r\<rceil> else \<lfloor>r\<rfloor>)"

definition js_rem :: "real \<Rightarrow> real \<Rightarrow> real" where
  "js_rem a b = a - b * of_int (js_trunc (a / b))"

subsection \<open>Rounding to binary64\<close>

text \<open>
  Round to nearest, ties to even: \<open>rne\<close> rounds a real to an integer; \<open>exponent64 x\<close> is
  the exponent of the binade of \<open>x\<close>, not below that of the subnormal numbers; and
  \<open>round64 x\<close> is the multiple of \<open>2 ^ (exponent64 x - 52)\<close> nearest to \<open>x\<close>. A result
  of magnitude \<open>2 ^ 1024\<close> or more is an infinity in the program and is not represented.
\<close>

definition rne :: "real \<Rightarrow> int" where
  "rne y = (let f = \<lfloor>y\<rfloor>; d = y - of_int f
            in if d < 1 / 2 then f else if 1 / 2 < d then f + 1 else if even f then f else f + 1)"

definition exponent64 :: "real \<Rightarrow> int" where
  "exponent64 x =
     max (- 1022) (if 1 \<le> \<bar>x\<bar> then bitlen \<lfloor>\<bar>x\<bar>\<rfloor> - 1 else - bitlen (\<lceil>1 / \<bar>x\<bar>\<rceil> - 1))"

definition round64 :: "real \<Rightarrow> real" where
  "round64 x =
     (if x = 0 then 0
      else (let q = 2 powi (exponent64 x - 52) in q * of_int (rne (x / q))))"

section \<open>xorshift.ts\<close>

record XorShift =
  st_x :: jsint
  st_y :: jsint
  st_z :: jsint
  st_w :: jsint

text \<open>
  \<open>nextInt\<close>: \<open><<\<close> and \<open>^\<close> work on 32-bit values, \<open>>>>\<close> is the unsigned shift, and the
  result of the outer \<open>^\<close> is read as a signed 32-bit integer.
\<close>

definition nextInt :: "XorShift \<Rightarrow> int \<times> XorShift" where
  "nextInt g =
     (let t = toInt32 (st_x g) XOR push_bit 11 (toInt32 (st_x g));
          w' = (toInt32 (st_w g) XOR drop_bit 19 (toInt32 (st_w g))) XOR (t XOR drop_bit 8 t)
      in (sint w',
          \<lparr>st_x = st_y g, st_y = st_z g, st_z = st_w g, st_w = Num (sint w')\<rparr>))"

text \<open>
  \<open>nextIntBet\<close>, first with exact arithmetic, as the geometry uses it, then with the
  two roundings of the program: the difference \<open>to - from\<close> and the final sum are
  rounded to binary64, while \<open>%\<close> is exact on binary64 operands. The two agree for
  whole bounds of magnitude at most \<open>2 ^ 53\<close>.
\<close>

definition nextIntBet :: "XorShift \<Rightarrow> real \<Rightarrow> real \<Rightarrow> real \<times> XorShift" where
  "nextIntBet g from to =
     (if to - from \<le> 0 then (0, g)
      else (let (n, g') = nextInt g
            in (from + js_rem (of_int \<bar>n\<bar>) (to - from), g')))"

definition nextIntBet_binary64 :: "XorShift \<Rightarrow> real \<Rightarrow> real \<Rightarrow> real \<times> XorShift" where
  "nextIntBet_binary64 g from to =
     (if round64 (to - from) \<le> 0 then (0, g)
      else (let (n, g') = nextInt g
            in (round64 (from + js_rem (of_int \<bar>n\<bar>) (round64 (to - from))), g')))"

subsection \<open>Strings\<close>

text \<open>
  The identifier is a string of 8-bit characters. \<open>slice\<close> counts a negative index from
  the end and clamps both indices to the string (\<open>str_slice\<close>).
\<close>

definition str_slice :: "string \<Rightarrow> int \<Rightarrow> int \<Rightarrow> string" where
  "str_slice s start end' =
     (let len = int (length s);
          from = (if start < 0 then max (len + start) 0 else min start len);
          to = (if end' < 0 then max (len + end') 0 else min end' len)
      in take (nat (max (to - from) 0)) (drop (nat from) s))"

definition isWhiteSpace :: "char \<Rightarrow> bool" where
  "isWhiteSpace c = (of_char c \<in> {9, 10, 11, 12, 13, 32, 160 :: nat})"

definition hexDigit :: "char \<Rightarrow> int option" where
  "hexDigit c =
     (let n = (of_char c :: nat) in
      if 48 \<le> n \<and> n \<le> 57 then Some (int n - 48)
      else if 97 \<le> n \<and> n \<le> 102 then Some (int n - 87)
      else if 65 \<le> n \<and> n \<le> 70 then Some (int n - 55)
      else None)"

text \<open>The value of the longest prefix of hexadecimal digits, \<open>None\<close> when it is empty.\<close>

fun hexPrefix :: "int option \<Rightarrow> string \<Rightarrow> int option" where
  "hexPrefix acc [] = acc"
| "hexPrefix acc (c # cs) =
     (case hexDigit c of
        None \<Rightarrow> acc
      | Some d \<Rightarrow> hexPrefix (Some ((case acc of None \<Rightarrow> 0 | Some a \<Rightarrow> a) * 16 + d)) cs)"

text \<open>
  \<open>parseInt(chunk, 16)\<close>: leading white space is skipped, then an optional sign, then
  an optional \<open>0x\<close> or \<open>0X\<close>; the digits that follow are read up to the first character
  that is not a hexadecimal digit, and no digit at all gives NaN.
\<close>

definition parseInt16 :: "string \<Rightarrow> jsint" where
  "parseInt16 s =
     (let s1 = dropWhile isWhiteSpace s;
          sign = (case s1 of c # _ \<Rightarrow> (if c = CHR ''-'' then - 1 else 1) | [] \<Rightarrow> (1::int));
          s2 = (case s1 of c # cs \<Rightarrow> (if c = CHR ''-'' \<or> c = CHR ''+'' then cs else s1) | [] \<Rightarrow> s1);
          s3 = (case s2 of
                  c # d # cs \<Rightarrow> (if c = CHR ''0'' \<and> (d = CHR ''x'' \<or> d = CHR ''X'') then cs else s2)
                | _ \<Rightarrow> s2)
      in case hexPrefix None s3 of None \<Rightarrow> NaN | Some v \<Rightarrow> Num (sign * v))"

text \<open>
  \<open>getDeterministicRandomBy\<close>: chunk \<open>i\<close> is \<open>address.slice(len - 8 (i + 1), len - 8 i)\<close>;
  \<open>unshift\<close> puts each parsed chunk in front, so the last chunk parsed is word \<open>x\<close>.
  There is no check of the length and no error path.
\<close>

definition chunk :: "string \<Rightarrow> int \<Rightarrow> jsint" where
  "chunk address i =
     (let start = int (length address) - 8 * (i + 1);
          end' = start + 8
      in parseInt16 (str_slice address start end'))"

definition getDeterministicRandomBy :: "string \<Rightarrow> XorShift" where
  "getDeterministicRandomBy address =
     (let ints = fold (\<lambda>i acc. chunk address (int i) # acc) [0..<4] []
      in \<lparr>st_x = ints ! 0, st_y = ints ! 1, st_z = ints ! 2, st_w = ints ! 3\<rparr>)"

section \<open>tier.ts\<close>

record TieredFireColor =
  outer :: string
  middle :: string
  inner :: string

definition tierBoundaries :: "int list" where
  "tierBoundaries = [50000, 100000, 500000, 1000000, 5000000, 10000000, 50000000]"

text \<open>The loop of \<open>checkTierOf\<close>: it leaves at the first boundary above the counter.\<close>

function tierLoop :: "int \<Rightarrow> nat \<Rightarrow> nat" where
  "tierLoop gasUsed i =
     (if i < length tierBoundaries
      then (if gasUsed < tierBoundaries ! i then i else tierLoop gasUsed (i + 1))
      else i)"
  by pat_completeness auto
termination
  by (relation "measure (\<lambda>(g, i). length tierBoundaries - i)") auto

definition checkTierOf :: "int \<Rightarrow> nat" where
  "checkTierOf gasUsed = tierLoop gasUsed 0 + 1"

definition tierFireColor :: "TieredFireColor list" where
  "tierFireColor =
     [\<lparr>outer = ''#414141'', middle = ''#797979'', inner = ''#ffffff''\<rparr>,
      \<lparr>outer = ''#f86124'', middle = ''#f6a223'', inner = ''#f6e989''\<rparr>,
      \<lparr>outer = ''#408600'', middle = ''#46ff1d'', inner = ''#afff9f''\<rparr>,
      \<lparr>outer = ''#124d44'', middle = ''#17a892'', inner = ''#05ffda''\<rparr>,
      \<lparr>outer = ''#004d8a'', middle = ''#0c93ff'', inner = ''#8ee1ff''\<rparr>,
      \<lparr>outer = ''#3d00b0'', middle = ''#6311ff'', inner = ''#b28cff''\<rparr>,
      \<lparr>outer = ''#ad0091'', middle = ''#ff35db'', inner = ''#ff99ec''\<rparr>,
      \<lparr>outer = ''#8c0000'', middle = ''#e80d0d'', inner = ''#ff9898''\<rparr>]"

text \<open>
  \<open>getTieredFireColor\<close>: an index outside the table reads \<open>undefined\<close>, here \<open>None\<close>.
\<close>

definition getTieredFireColor :: "nat \<Rightarrow> TieredFireColor option" where
  "getTieredFireColor tier =
     (if 1 \<le> tier \<and> tier - 1 < length tierFireColor
      then Some (tierFireColor ! (tier - 1)) else None)"

section \<open>bezierfire.ts\<close>

record Point =
  px :: real
  py :: real

record Rect =
  rx1 :: real
  ry1 :: real
  rx2 :: real
  ry2 :: real

record BezierLine =
  cp1x :: real
  cp1y :: real
  cp2x :: real
  cp2y :: real
  endx :: real
  endy :: real

record BezierFire =
  frame :: Rect
  start :: Point
  points :: "BezierLine list"
  fireBase :: Point

definition getBezierPoint :: "real \<Rightarrow> Point \<Rightarrow> Point \<Rightarrow> Point \<Rightarrow> Point \<Rightarrow> Point" where
  "getBezierPoint t p0 cp1 cp2 p3 =
     (let u = 1 - t; tt = t * t; uu = u * u; uuu = uu * u; ttt = tt * t
      in \<lparr>px = 0 + px p0 * uuu + 3 * px cp1 * uu * t + 3 * px cp2 * u * tt + px p3 * ttt,
          py = 0 + py p0 * uuu + 3 * py cp1 * uu * t + 3 * py cp2 * u * tt + py p3 * ttt\<rparr>)"

text \<open>
  \<open>calculateApproximateCentroid\<close>: the outer loop runs over the segments, the inner one
  over the samples; both add to the running sums.
\<close>

definition calculateApproximateCentroid :: "BezierFire \<Rightarrow> nat \<Rightarrow> Point" where
  "calculateApproximateCentroid fire samples =
     (let (sumX, sumY) =
        fold (\<lambda>i acc.
                let p0 = (if i = 0 then start fire
                          else \<lparr>px = endx (points fire ! (i - 1)), py = endy (points fire ! (i - 1))\<rparr>);
                    p1 = points fire ! i
                in fold (\<lambda>j (sx, sy).
                           let t = real j / (real samples - 1);
                               pt = getBezierPoint t p0
                                      \<lparr>px = cp1x p1, py = cp1y p1\<rparr>
                                      \<lparr>px = cp2x p1, py = cp2y p1\<rparr>
                                      \<lparr>px = endx p1, py = endy p1\<rparr>
                           in (sx + px pt, sy + py pt))
                        [0..<samples] acc)
             [0..<length (points fire)] (0, 0)
      in \<lparr>px = sumX / (real (length (points fire)) * real samples),
          py = sumY / (real (length (points fire)) * real samples)\<rparr>)"

definition scale :: "BezierFire \<Rightarrow> real \<Rightarrow> real \<Rightarrow> real \<Rightarrow> BezierFire" where
  "scale fire centerX centerY scaleFactor =
     \<lparr>frame = \<lparr>rx1 = centerX + (rx1 (frame fire) - centerX) * scaleFactor,
                ry1 = centerY + (ry1 (frame fire) - centerY) * scaleFactor,
                rx2 = centerX + (rx2 (frame fire) - centerX) * scaleFactor,
                ry2 = centerY + (ry2 (frame fire) - centerY) * scaleFactor\<rparr>,
      start = \<lparr>px = centerX + (px (start fire) - centerX) * scaleFactor,
                py = centerY + (py (start fire) - centerY) * scaleFactor\<rparr>,
      points = map (\<lambda>p. \<lparr>cp1x = centerX + (cp1x p - centerX) * scaleFactor,
                           cp1y = centerY + (cp1y p - centerY) * scaleFactor,
                           cp2x = centerX + (cp2x p - centerX) * scaleFactor,
                           cp2y = centerY + (cp2y p - centerY) * scaleFactor,
                           endx = centerX + (endx p - centerX) * scaleFactor,
                           endy = centerY + (endy p - centerY) * scaleFactor\<rparr>) (points fire),
      fireBase = \<lparr>px = centerX + (px (fireBase fire) - centerX) * scaleFactor,
                   py = centerY + (py (fireBase fire) - centerY) * scaleFactor\<rparr>\<rparr>"

definition move :: "BezierFire \<Rightarrow> real \<Rightarrow> real \<Rightarrow> BezierFire" where
  "move fire offsetX offsetY =
     \<lparr>frame = \<lparr>rx1 = rx1 (frame fire) + offsetX, ry1 = ry1 (frame fire) + offsetY,
                rx2 = rx2 (frame fire) + offsetX, ry2 = ry2 (frame fire) + offsetY\<rparr>,
      start = \<lparr>px = px (start fire) + offsetX, py = py (start fire) + offsetY\<rparr>,
      points = map (\<lambda>p. \<lparr>cp1x = cp1x p + offsetX, cp1y = cp1y p + offsetY,
                           cp2x = cp2x p + offsetX, cp2y = cp2y p + offsetY,
                           endx = endx p + offsetX, endy = endy p + offsetY\<rparr>) (points fire),
      fireBase = \<lparr>px = px (fireBase fire) + offsetX, py = py (fireBase fire) + offsetY\<rparr>\<rparr>"

section \<open>projection.ts\<close>

text \<open>A quadrilateral: four points \<open>[x, y]\<close>, as \<open>src\<close> and \<open>dest\<close> of a template.\<close>

type_synonym quad = "(real \<times> real) \<times> (real \<times> real) \<times> (real \<times> real) \<times> (real \<times> real)"

record TransformTemplate =
  src :: quad
  dest :: quad

text \<open>The sixteen entries of a \<open>mat4\<close> and the nine of the projection matrix, by index.\<close>

datatype mat4 = Mat4 (e0: real) (e1: real) (e2: real) (e3: real)
                     (e4: real) (e5: real) (e6: real) (e7: real)
                     (e8: real) (e9: real) (e10: real) (e11: real)
                     (e12: real) (e13: real) (e14: real) (e15: real)

datatype param = Param (m0: real) (m1: real) (m2: real) (m3: real) (m4: real)
                       (m5: real) (m6: real) (m7: real) (m8: real)

record ProjectiveTransform =
  template :: TransformTemplate
  mat :: param

text \<open>
  Modelled from the spec: \<open>mat4.invert\<close> belongs to the gl-matrix package, which is not
  under src/; the spec calls it "a standard 4x4 matrix inverse". The determinant is
  expanded along pairs of rows, the inverse is the adjugate times its reciprocal, and
  a matrix whose determinant is 0 is left as it is. The package keeps the sixteen
  entries in single precision; here they are exact.
\<close>

definition mat4_det :: "mat4 \<Rightarrow> real" where
  "mat4_det a =
     (e0 a * e5 a - e1 a * e4 a) * (e10 a * e15 a - e11 a * e14 a)
     - (e0 a * e6 a - e2 a * e4 a) * (e9 a * e15 a - e11 a * e13 a)
     + (e0 a * e7 a - e3 a * e4 a) * (e9 a * e14 a - e10 a * e13 a)
     + (e1 a * e6 a - e2 a * e5 a) * (e8 a * e15 a - e11 a * e12 a)
     - (e1 a * e7 a - e3 a * e5 a) * (e8 a * e14 a - e10 a * e12 a)
     + (e2 a * e7 a - e3 a * e6 a) * (e8 a * e13 a - e9 a * e12 a)"

definition mat4_invert :: "mat4 \<Rightarrow> mat4" where
  "mat4_invert a =
     (let b00 = e0 a * e5 a - e1 a * e4 a;
          b01 = e0 a * e6 a - e2 a * e4 a;
          b02 = e0 a * e7 a - e3 a * e4 a;
          b03 = e1 a * e6 a - e2 a * e5 a;
          b04 = e1 a * e7 a - e3 a * e5 a;
          b05 = e2 a * e7 a - e3 a * e6 a;
          b06 = e8 a * e13 a - e9 a * e12 a;
          b07 = e8 a * e14 a - e10 a * e12 a;
          b08 = e8 a * e15 a - e11 a * e12 a;
          b09 = e9 a * e14 a - e10 a * e13 a;
          b10 = e9 a * e15 a - e11 a * e13 a;
          b11 = e10 a * e15 a - e11 a * e14 a;
          det = mat4_det a
      in if det = 0 then a
         else (let d = 1 / det in
           Mat4 ((e5 a * b11 - e6 a * b10 + e7 a * b09) * d)
                ((e2 a * b10 - e1 a * b11 - e3 a * b09) * d)
                ((e13 a * b05 - e14 a * b04 + e15 a * b03) * d)
                ((e10 a * b04 - e9 a * b05 - e11 a * b03) * d)
                ((e6 a * b08 - e4 a * b11 - e7 a * b07) * d)
                ((e0 a * b11 - e2 a * b08 + e3 a * b07) * d)
                ((e14 a * b02 - e12 a * b05 - e15 a * b01) * d)
                ((e8 a * b05 - e10 a * b02 + e11 a * b01) * d)
                ((e4 a * b10 - e5 a * b08 + e7 a * b06) * d)
                ((e1 a * b08 - e0 a * b10 - e3 a * b06) * d)
                ((e12 a * b04 - e13 a * b02 + e15 a * b00) * d)
                ((e9 a * b02 - e8 a * b04 - e11 a * b00) * d)
                ((e5 a * b07 - e4 a * b09 - e6 a * b06) * d)
                ((e0 a * b09 - e1 a * b07 + e2 a * b06) * d)
                ((e13 a * b01 - e12 a * b03 - e14 a * b00) * d)
                ((e8 a * b03 - e9 a * b01 + e10 a * b00) * d)))"

text \<open>\<open>Z\<close>, local to \<open>calcProjectionMatrix\<close>: a coordinate 0 is replaced by 0.5.\<close>

definition Z :: "real \<Rightarrow> real" where
  "Z val = (if val = 0 then 0.5 else val)"

definition Zquad :: "quad \<Rightarrow> quad" where
  "Zquad q = (case q of ((a1, b1), (a2, b2), (a3, b3), (a4, b4)) \<Rightarrow>
     ((Z a1, Z b1), (Z a2, Z b2), (Z a3, Z b3), (Z a4, Z b4)))"

text \<open>
  The two matrices handed to \<open>mat4.fromValues\<close>: \<open>tx\<close> takes the x coordinates of the
  destination, \<open>ty\<close> its y coordinates (\<open>sel = fst\<close> and \<open>sel = snd\<close>).
\<close>

definition tmatrix :: "(real \<times> real \<Rightarrow> real) \<Rightarrow> quad \<Rightarrow> quad \<Rightarrow> mat4" where
  "tmatrix sel s d = (case (Zquad s, Zquad d) of
     (((X1, Y1), (X2, Y2), (X3, Y3), (X4, Y4)), (d1, d2, d3, d4)) \<Rightarrow>
       Mat4 X1 Y1 (- X1 * sel d1) (- Y1 * sel d1)
            X2 Y2 (- X2 * sel d2) (- Y2 * sel d2)
            X3 Y3 (- X3 * sel d3) (- Y3 * sel d3)
            X4 Y4 (- X4 * sel d4) (- Y4 * sel d4))"

text \<open>
  \<open>kx1 .. kx4\<close> (and \<open>ky1 .. ky4\<close>): the rows of the inverted matrix times the
  destination coordinates; \<open>kc1 .. kc4\<close> (and \<open>kf1 .. kf4\<close>): the sums of its rows.
\<close>

definition krows :: "mat4 \<Rightarrow> real \<Rightarrow> real \<Rightarrow> real \<Rightarrow> real \<Rightarrow> real \<times> real \<times> real \<times> real" where
  "krows t v1 v2 v3 v4 =
     (e0 t * v1 + e1 t * v2 + e2 t * v3 + e3 t * v4,
      e4 t * v1 + e5 t * v2 + e6 t * v3 + e7 t * v4,
      e8 t * v1 + e9 t * v2 + e10 t * v3 + e11 t * v4,
      e12 t * v1 + e13 t * v2 + e14 t * v3 + e15 t * v4)"

definition ksums :: "mat4 \<Rightarrow> real \<times> real \<times> real \<times> real" where
  "ksums t =
     (e0 t + e1 t + e2 t + e3 t,
      e4 t + e5 t + e6 t + e7 t,
      e8 t + e9 t + e10 t + e11 t,
      e12 t + e13 t + e14 t + e15 t)"

text \<open>\<open>det_1\<close> as first computed, before the test against 0.\<close>

definition det_1 :: "quad \<Rightarrow> quad \<Rightarrow> real" where
  "det_1 s d =
     (let (kc1, kc2, kc3, kc4) = ksums (mat4_invert (tmatrix fst s d));
          (kf1, kf2, kf3, kf4) = ksums (mat4_invert (tmatrix snd s d))
      in kc3 * (- kf4) - (- kf3) * kc4)"

definition calcProjectionMatrix :: "quad \<Rightarrow> quad \<Rightarrow> param" where
  "calcProjectionMatrix s d =
     (case Zquad d of ((x1, y1), (x2, y2), (x3, y3), (x4, y4)) \<Rightarrow>
      let tx = mat4_invert (tmatrix fst s d);
          (kx1, kx2, kx3, kx4) = krows tx x1 x2 x3 x4;
          (kc1, kc2, kc3, kc4) = ksums tx;
          ty = mat4_invert (tmatrix snd s d);
          (ky1, ky2, ky3, ky4) = krows ty y1 y2 y3 y4;
          (kf1, kf2, kf3, kf4) = ksums ty;
          det_1a = kc3 * (- kf4) - (- kf3) * kc4;
          det_1b = (if det_1a = 0 then 0.0001 else det_1a);
          det_1c = 1 / det_1b;
          C = (- kf4 * det_1c) * (kx3 - ky3) + (kf3 * det_1c) * (kx4 - ky4);
          F = (- kc4 * det_1c) * (kx3 - ky3) + (kc3 * det_1c) * (kx4 - ky4)
      in Param (kx1 - C * kc1) (kx2 - C * kc2) C
               (ky1 - F * kf1) (ky2 - F * kf2) F
               (kx3 - C * kc3) (kx4 - C * kc4) 1)"

definition createTransformBy :: "TransformTemplate \<Rightarrow> ProjectiveTransform" where
  "createTransformBy tmpl =
     \<lparr>template = tmpl, mat = calcProjectionMatrix (src tmpl) (dest tmpl)\<rparr>"

definition transform :: "ProjectiveTransform \<Rightarrow> real \<Rightarrow> real \<Rightarrow> real \<times> real" where
  "transform T x' y' =
     (let z = x' * m6 (mat T) + y' * m7 (mat T) + m8 (mat T);
          x = (x' * m0 (mat T) + y' * m1 (mat T) + m2 (mat T)) / z;
          y = (x' * m3 (mat T) + y' * m4 (mat T) + m5 (mat T)) / z
      in (x, y))"

definition transformBezier :: "ProjectiveTransform \<Rightarrow> BezierFire \<Rightarrow> BezierFire" where
  "transformBezier T bezierLine =
     (let (sx, sy) = transform T (px (start bezierLine)) (py (start bezierLine));
          (fbx, fby) = transform T (px (fireBase bezierLine)) (py (fireBase bezierLine));
          pts = map (\<lambda>p.
                  let (c1x, c1y) = transform T (cp1x p) (cp1y p);
                      (c2x, c2y) = transform T (cp2x p) (cp2y p);
                      (x, y) = transform T (endx p) (endy p)
                  in \<lparr>cp1x = c1x, cp1y = c1y, cp2x = c2x, cp2y = c2y, endx = x, endy = y\<rparr>)
                (points bezierLine)
      in \<lparr>frame = frame bezierLine, start = \<lparr>px = sx, py = sy\<rparr>, points = pts,
          fireBase = \<lparr>px = fbx, py = fby\<rparr>\<rparr>)"

section \<open>generator.ts\<close>

text \<open>
  A \<open>ProjectionGenerator\<close> holds a reference to the caller's generator, the seed shape
  and the canvas width. Its methods take the seed and the width as arguments, and take
  and return the generator state, so every draw is seen by the caller.
\<close>

definition degreeToRad :: "real \<Rightarrow> real" where
  "degreeToRad degree = degree * pi / 180"

definition determineCenterPoint :: "XorShift \<Rightarrow> Rect \<Rightarrow> Point \<times> XorShift" where
  "determineCenterPoint g barRangeOfMotion =
     (let (midpointX, g1) = nextIntBet g (rx1 barRangeOfMotion) (rx2 barRangeOfMotion);
          (midpointY, g2) = nextIntBet g1 (ry1 barRangeOfMotion) (ry2 barRangeOfMotion)
      in (\<lparr>px = midpointX, py = midpointY\<rparr>, g2))"

text \<open>
  \<open>Math.atan(a / b)\<close>. The divisors are differences, which are \<open>+0\<close> when they vanish;
  the quotient is then an infinity with the sign of \<open>a\<close>, whose arc tangent is
  \<open>pi / 2\<close> or \<open>- pi / 2\<close>, or NaN when \<open>a\<close> is 0 as well, here \<open>None\<close>.
\<close>

definition atanQuotient :: "real \<Rightarrow> real \<Rightarrow> real option" where
  "atanQuotient a b =
     (if b \<noteq> 0 then Some (arctan (a / b))
      else if 0 < a then Some (pi / 2)
      else if a < 0 then Some (- (pi / 2))
      else None)"

text \<open>
  \<open>calcBarAngleRange\<close>: the three branches take the arc tangents of the same two
  quotients. \<open>None\<close> stands for a pair that holds NaN.
\<close>

definition calcBarAngleRange :: "BezierFire \<Rightarrow> real \<Rightarrow> real \<Rightarrow> (real \<times> real) option" where
  "calcBarAngleRange seed midpointX midpointY =
     (let f = frame seed
      in case (atanQuotient (midpointY - ry2 f) (midpointX - rx1 f),
               atanQuotient (midpointY - ry2 f) (midpointX - rx2 f)) of
           (Some atan1, Some atan2) \<Rightarrow>
             (let (startAngle, endAngle) =
                    (if midpointX < rx1 f then (- (pi - atan1), atan2)
                     else if midpointX \<ge> rx1 f \<and> midpointX \<le> rx2 f then (atan1, atan2)
                     else (atan1, pi + atan2));
                  angleThreshold = 30
              in Some (startAngle + degreeToRad angleThreshold,
                       endAngle - degreeToRad angleThreshold))
         | _ \<Rightarrow> None)"

definition determineBarAngleRad :: "XorShift \<Rightarrow> real \<Rightarrow> real \<Rightarrow> real \<times> XorShift" where
  "determineBarAngleRad g startAngle endAngle =
     (let (lr, g1) = nextIntBet g 0 1;
          angleWidth = (endAngle - startAngle) * 180 / pi;
          (n, g2) = nextIntBet g1 0 angleWidth;
          angleMove = n * pi / 180;
          angleRad = startAngle + angleMove
      in if lr = 1 then (angleRad + pi, g2) else (angleRad, g2))"

definition rotate :: "real \<Rightarrow> real \<Rightarrow> Point \<Rightarrow> real \<Rightarrow> Point" where
  "rotate centerX centerY point radian =
     (let cosTheta = cos radian; sinTheta = sin radian
      in \<lparr>px = centerX + (px point - centerX) * cosTheta - (py point - centerY) * sinTheta,
          py = centerY + (px point - centerX) * sinTheta + (py point - centerY) * cosTheta\<rparr>)"

text \<open>
  The first half of \<open>nextTransform\<close>: the bar radius, the range of motion of the bar and
  its centre, with the generator state after these three draws.
\<close>

definition nextTransform_centre ::
  "BezierFire \<Rightarrow> real \<Rightarrow> XorShift \<Rightarrow> (real \<times> Rect \<times> Point) \<times> XorShift" where
  "nextTransform_centre seed canvasWidth g =
     (let minWidth = 51;
          frameWidth = rx2 (frame seed) - rx1 (frame seed);
          frameHeight = ry2 (frame seed) - ry1 (frame seed);
          (n, g1) = nextIntBet g minWidth frameWidth;
          barLength = of_int \<lfloor>n / 2\<rfloor> * 2;
          radius = barLength / 2;
          barRangeOfMotion = \<lparr>rx1 = radius, ry1 = radius, rx2 = canvasWidth - radius,
                              ry2 = ry1 (frame seed) + frameHeight / 2\<rparr>;
          (c, g2) = determineCenterPoint g1 barRangeOfMotion
      in ((radius, barRangeOfMotion, c), g2))"

text \<open>
  \<open>nextTransform\<close>, called without a drawing context, as \<open>renderImage\<close> does: the
  branch that logs and draws the range of motion is not taken. With NaN for an angle
  the program goes on and every coordinate it computes from there is NaN; the model
  stops with \<open>None\<close>.
\<close>

definition nextTransform ::
  "BezierFire \<Rightarrow> real \<Rightarrow> XorShift \<Rightarrow> (ProjectiveTransform \<times> XorShift) option" where
  "nextTransform seed canvasWidth g =
     (let ((radius, barRangeOfMotion, c), g2) = nextTransform_centre seed canvasWidth g;
          midpointX = px c; midpointY = py c
      in case calcBarAngleRange seed midpointX midpointY of
           None \<Rightarrow> None
         | Some (startAngle, endAngle) \<Rightarrow>
             (let (barAngleRad, g3) = determineBarAngleRad g2 startAngle endAngle;
                  baseLeftTopPoint = \<lparr>px = midpointX - radius, py = midpointY\<rparr>;
                  baseRightTopPoint = \<lparr>px = midpointX + radius, py = midpointY\<rparr>;
                  p1 = rotate midpointX midpointY baseLeftTopPoint barAngleRad;
                  p2 = rotate midpointX midpointY baseRightTopPoint barAngleRad;
                  f = frame seed
              in Some (createTransformBy
                    \<lparr>src = ((rx1 f, ry1 f), (rx2 f, ry1 f), (rx2 f, ry2 f), (rx1 f, ry2 f)),
                     dest = ((px p1, py p1), (px p2, py p2), (rx2 f, ry2 f), (rx1 f, ry2 f))\<rparr>,
                  g3)))"

section \<open>render.ts\<close>

definition bezierFireSeeds :: "BezierFire list" where
  "bezierFireSeeds =
     [\<lparr>frame = \<lparr>rx1 = 120, ry1 = 70, rx2 = 392, ry2 = 512\<rparr>,
       start = \<lparr>px = 134, py = 391\<rparr>,
       points =
         [\<lparr>cp1x = 173, cp1y = 530, cp2x = 344, cp2y = 530, endx = 383, endy = 391\<rparr>,
          \<lparr>cp1x = 406, cp1y = 260, cp2x = 282, cp2y = 221, endx = 258, endy = 70\<rparr>,
          \<lparr>cp1x = 234, cp1y = 221, cp2x = 110, cp2y = 260, endx = 134, endy = 391\<rparr>],
       fireBase = \<lparr>px = 258, py = 406\<rparr>\<rparr>]"

text \<open>
  The drawing context is the list of the calls made on it so far; setting \<open>fillStyle\<close>
  is a call as well. \<open>TypeError\<close> stands for reading a property of \<open>undefined\<close>, and
  \<open>NotANumber\<close> for a run that the model does not follow because an angle is NaN.
\<close>

datatype call =
    BeginPath
  | MoveTo real real
  | BezierCurveTo real real real real real real
  | ClosePath
  | SetFillStyle string
  | Fill

datatype error = TypeError | NotANumber

definition drawBezierFire :: "call list \<Rightarrow> BezierFire \<Rightarrow> string \<Rightarrow> call list" where
  "drawBezierFire ctx bezierFire fillColor =
     (let ctx1 = ctx @ [BeginPath];
          ctx2 = ctx1 @ [MoveTo (px (start bezierFire)) (py (start bezierFire))];
          ctx3 = fold (\<lambda>p c. c @ [BezierCurveTo (cp1x p) (cp1y p) (cp2x p) (cp2y p) (endx p) (endy p)])
                      (points bezierFire) ctx2;
          ctx4 = ctx3 @ [ClosePath];
          ctx5 = ctx4 @ [SetFillStyle fillColor]
      in ctx5 @ [Fill])"

text \<open>
  \<open>drawBezierFrame\<close>: four loops over the instances and one last call for the first
  instance. With no instance at all the loops do nothing and the last statement
  reads \<open>fireBase\<close> of \<open>undefined\<close>.
\<close>

definition drawBezierFrame :: "call list \<Rightarrow> TieredFireColor \<Rightarrow> BezierFire list \<Rightarrow> error + call list" where
  "drawBezierFrame ctx fireColor bezierFires =
     (case bezierFires of
        [] \<Rightarrow> Inl TypeError
      | baseFire # _ \<Rightarrow>
          (let ctx1 = fold (\<lambda>fire c.
                        let fire' = move fire (px (fireBase baseFire) - px (fireBase fire)) 0;
                            ct = calculateApproximateCentroid fire' 10
                        in drawBezierFire c (scale fire' (px ct) (py ct) 1.0) ''#ffffff'')
                      bezierFires ctx;
               ctx2 = fold (\<lambda>fire c.
                        let fire' = move fire (px (fireBase baseFire) - px (fireBase fire)) 0;
                            ct = calculateApproximateCentroid fire' 10
                        in drawBezierFire c (scale fire' (px ct) (py ct) 0.93) ''#000000'')
                      bezierFires ctx1;
               ctx3 = fold (\<lambda>fire c.
                        let fire' = move fire (px (fireBase baseFire) - px (fireBase fire)) 0;
                            ct = calculateApproximateCentroid fire' 10
                        in drawBezierFire c (scale fire' (px ct) (py ct) 0.84) (outer fireColor))
                      bezierFires ctx2;
               ctx4 = fold (\<lambda>fire c.
                        let fire' = move fire (px (fireBase baseFire) - px (fireBase fire)) 0
                        in drawBezierFire c
                             (scale fire' (px (fireBase fire')) (py (fireBase fire')) 0.55)
                             (middle fireColor))
                      bezierFires ctx3
           in Inr (drawBezierFire ctx4
                     (scale baseFire (px (fireBase baseFire)) (py (fireBase baseFire)) 0.3)
                     (inner fireColor))))"

text \<open>
  Reading \<open>bezierFireSeeds[seedIdx]\<close>: \<open>undefined\<close> unless the index is a whole number
  inside the table. The program would meet the \<open>undefined\<close> later, at the first
  property read, before any call on the context; the model fails at the lookup.
\<close>

definition seedAt :: "real \<Rightarrow> BezierFire option" where
  "seedAt seedIdx =
     (if 0 \<le> seedIdx \<and> seedIdx = of_int \<lfloor>seedIdx\<rfloor> \<and> nat \<lfloor>seedIdx\<rfloor> < length bezierFireSeeds
      then Some (bezierFireSeeds ! nat \<lfloor>seedIdx\<rfloor>) else None)"

text \<open>The body of the loop of \<open>renderImage\<close>, for the values \<open>i\<close> still to come.\<close>

fun fireLoop :: "nat list \<Rightarrow> real \<Rightarrow> BezierFire list \<times> XorShift \<Rightarrow> error + BezierFire list \<times> XorShift" where
  "fireLoop [] width (bezierFires, g) = Inr (bezierFires, g)"
| "fireLoop (i # rest) width (bezierFires, g) =
     (let (seedIdx, g1) = nextIntBet g 0 (real (length bezierFireSeeds) - 1)
      in case seedAt seedIdx of
           None \<Rightarrow> Inl TypeError
         | Some fire \<Rightarrow>
             (if i > 0
              then (case nextTransform fire width g1 of
                      None \<Rightarrow> Inl NotANumber
                    | Some (projection, g2) \<Rightarrow>
                        fireLoop rest width (bezierFires @ [transformBezier projection fire], g2))
              else fireLoop rest width (bezierFires @ [fire], g1)))"

text \<open>
  \<open>renderImage\<close>: the loop runs for \<open>i = 0, 1, ...\<close> while \<open>i < fireNum\<close>. The height is
  not used. A palette that is \<open>undefined\<close> would be met inside \<open>drawBezierFrame\<close>, at
  \<open>fireColor.outer\<close>; the model fails before drawing.
\<close>

definition renderImage :: "call list \<Rightarrow> real \<Rightarrow> real \<Rightarrow> string \<Rightarrow> int \<Rightarrow> error + call list" where
  "renderImage ctx width height address gasUsed =
     (let xorShift = getDeterministicRandomBy address;
          (fireNum, g1) = nextIntBet xorShift 2 4
      in case fireLoop [0..<nat \<lceil>fireNum\<rceil>] width ([], g1) of
           Inl e \<Rightarrow> Inl e
         | Inr (bezierFires, g2) \<Rightarrow>
             (let tier = checkTierOf gasUsed
              in case getTieredFireColor tier of
                   None \<Rightarrow> Inl TypeError
                 | Some tieredFireColor \<Rightarrow> drawBezierFrame ctx tieredFireColor bezierFires))"

section \<open>Auxiliary definitions\<close>

text \<open>
  The definitions of this section are not functions of the program: they name parts of
  its behaviour for the statements below.
\<close>

subsection \<open>Generator\<close>

text \<open>A state whose next output is the most negative 32-bit integer.\<close>

definition minState :: XorShift where
  "minState = \<lparr>st_x = Num 0, st_y = Num 0, st_z = Num 0, st_w = Num 2147487744\<rparr>"

text \<open>The identifier of the end-to-end scenario, and two more with 40 digits.\<close>

definition golden :: string where
  "golden = ''0x000000000000000000000000000000000000aa''"


definition identifierB :: string where
  "identifierB = ''0x000000000000000000000000000000000000003f''"

text \<open>A state whose next output is 1.\<close>

definition oddState :: XorShift where
  "oddState = \<lparr>st_x = Num 0, st_y = Num 0, st_z = Num 0, st_w = Num 1\<rparr>"

text \<open>The state of the generator in \<open>renderImage\<close> once the instance count is drawn.\<close>

definition afterCount :: "string \<Rightarrow> XorShift" where
  "afterCount address = snd (nextIntBet (getDeterministicRandomBy address) 2 4)"

subsection \<open>Matrices\<close>

text \<open>
  The adjugate, which \<open>mat4_invert\<close> multiplies by the reciprocal of the determinant,
  the product of a matrix with a column vector, and the scaling of a vector.
\<close>

definition adjugate :: "mat4 \<Rightarrow> mat4" where
  "adjugate a =
     (let b00 = e0 a * e5 a - e1 a * e4 a;
          b01 = e0 a * e6 a - e2 a * e4 a;
          b02 = e0 a * e7 a - e3 a * e4 a;
          b03 = e1 a * e6 a - e2 a * e5 a;
          b04 = e1 a * e7 a - e3 a * e5 a;
          b05 = e2 a * e7 a - e3 a * e6 a;
          b06 = e8 a * e13 a - e9 a * e12 a;
          b07 = e8 a * e14 a - e10 a * e12 a;
          b08 = e8 a * e15 a - e11 a * e12 a;
          b09 = e9 a * e14 a - e10 a * e13 a;
          b10 = e9 a * e15 a - e11 a * e13 a;
          b11 = e10 a * e15 a - e11 a * e14 a
      in Mat4 (e5 a * b11 - e6 a * b10 + e7 a * b09)
                (e2 a * b10 - e1 a * b11 - e3 a * b09)
                (e13 a * b05 - e14 a * b04 + e15 a * b03)
                (e10 a * b04 - e9 a * b05 - e11 a * b03)
                (e6 a * b08 - e4 a * b11 - e7 a * b07)
                (e0 a * b11 - e2 a * b08 + e3 a * b07)
                (e14 a * b02 - e12 a * b05 - e15 a * b01)
                (e8 a * b05 - e10 a * b02 + e11 a * b01)
                (e4 a * b10 - e5 a * b08 + e7 a * b06)
                (e1 a * b08 - e0 a * b10 - e3 a * b06)
                (e12 a * b04 - e13 a * b02 + e15 a * b00)
                (e9 a * b02 - e8 a * b04 - e11 a * b00)
                (e5 a * b07 - e4 a * b09 - e6 a * b06)
                (e0 a * b09 - e1 a * b07 + e2 a * b06)
                (e13 a * b01 - e12 a * b03 - e14 a * b00)
                (e8 a * b03 - e9 a * b01 + e10 a * b00))"

definition mulv :: "mat4 \<Rightarrow> real \<times> real \<times> real \<times> real \<Rightarrow> real \<times> real \<times> real \<times> real" where
  "mulv t v = (case v of (v1, v2, v3, v4) \<Rightarrow> krows t v1 v2 v3 v4)"

definition smul :: "real \<Rightarrow> real \<times> real \<times> real \<times> real \<Rightarrow> real \<times> real \<times> real \<times> real" where
  "smul c v = (case v of (v1, v2, v3, v4) \<Rightarrow> (c * v1, c * v2, c * v3, c * v4))"

fun scaleM :: "real \<Rightarrow> mat4 \<Rightarrow> mat4" where
  "scaleM d (Mat4 n0 n1 n2 n3 n4 n5 n6 n7 n8 n9 n10 n11 n12 n13 n14 n15) =
     Mat4 (n0 * d) (n1 * d) (n2 * d) (n3 * d) (n4 * d) (n5 * d) (n6 * d) (n7 * d)
          (n8 * d) (n9 * d) (n10 * d) (n11 * d) (n12 * d) (n13 * d) (n14 * d) (n15 * d)"

subsection \<open>Quadrilaterals\<close>

text \<open>
  No coordinate of the quadrilateral is 0, so that \<open>Z\<close> leaves it as it is; its four
  corners; and the divisor \<open>z\<close> of \<open>transform\<close> at a point.
\<close>

definition noZero :: "quad \<Rightarrow> bool" where
  "noZero q = (case q of ((a1, b1), (a2, b2), (a3, b3), (a4, b4)) \<Rightarrow>
     a1 \<noteq> 0 \<and> b1 \<noteq> 0 \<and> a2 \<noteq> 0 \<and> b2 \<noteq> 0 \<and> a3 \<noteq> 0 \<and> b3 \<noteq> 0 \<and> a4 \<noteq> 0 \<and> b4 \<noteq> 0)"

definition corners :: "quad \<Rightarrow> (real \<times> real) list" where
  "corners q = (case q of (p1, p2, p3, p4) \<Rightarrow> [p1, p2, p3, p4])"

definition projectiveDivisor :: "ProjectiveTransform \<Rightarrow> real \<times> real \<Rightarrow> real" where
  "projectiveDivisor T p = fst p * m6 (mat T) + snd p * m7 (mat T) + m8 (mat T)"

definition quadA :: quad where "quadA = ((1, 1), (3, 1), (3, 3), (1, 3))"

definition quadB :: quad where "quadB = ((2, 2), (5, 1), (6, 4), (1, 5))"

definition quadA0 :: quad where "quadA0 = ((0, 0), (2, 0), (2, 2), (0, 2))"

definition quadB0 :: quad where "quadB0 = ((1, 1), (3, 1), (3, 3), (1, 3))"

definition quadC :: quad where "quadC = ((1, 1), (3, 2), (2, 3), (3, 3))"

definition quadD :: quad where
  "quadD = ((5, 7), (- (4 / 3), - (2 / 3)), (- (2 / 3), - (4 / 3)), (- 1, - 1))"

subsection \<open>Placement\<close>


definition barCentre :: "BezierFire \<Rightarrow> real \<Rightarrow> XorShift \<Rightarrow> Point" where
  "barCentre seed canvasWidth g = snd (snd (fst (nextTransform_centre seed canvasWidth g)))"

definition seed0 :: BezierFire where
  "seed0 = bezierFireSeeds ! 0"


subsection \<open>Draw calls\<close>

text \<open>
  The calls of one filled shape; the four placements of \<open>drawBezierFrame\<close> (the shift
  that aligns a shape with the first one, the scaling about the centroid and about the
  base); one layer, a filled shape for each instance in turn; the five layers in the
  order of the specification; and the colour in force at each \<open>fill\<close> of a call list.
\<close>

definition firePath :: "BezierFire \<Rightarrow> string \<Rightarrow> call list" where
  "firePath f fillColor =
     [BeginPath, MoveTo (px (start f)) (py (start f))]
     @ map (\<lambda>p. BezierCurveTo (cp1x p) (cp1y p) (cp2x p) (cp2y p) (endx p) (endy p)) (points f)
     @ [ClosePath, SetFillStyle fillColor, Fill]"

definition align :: "BezierFire \<Rightarrow> BezierFire \<Rightarrow> BezierFire" where
  "align baseFire fire = move fire (px (fireBase baseFire) - px (fireBase fire)) 0"

definition aboutCentroid :: "BezierFire \<Rightarrow> real \<Rightarrow> BezierFire" where
  "aboutCentroid f factor =
     scale f (px (calculateApproximateCentroid f 10)) (py (calculateApproximateCentroid f 10)) factor"

definition aboutBase :: "BezierFire \<Rightarrow> real \<Rightarrow> BezierFire" where
  "aboutBase f factor = scale f (px (fireBase f)) (py (fireBase f)) factor"

definition layer :: "(BezierFire \<Rightarrow> BezierFire) \<Rightarrow> string \<Rightarrow> BezierFire list \<Rightarrow> call list" where
  "layer place fillColor fires = concat (map (\<lambda>f. firePath (place f) fillColor) fires)"

definition layeredCalls :: "TieredFireColor \<Rightarrow> BezierFire list \<Rightarrow> call list" where
  "layeredCalls fireColor fires =
     layer (\<lambda>f. aboutCentroid (align (hd fires) f) 1.0) ''#ffffff'' fires
     @ layer (\<lambda>f. aboutCentroid (align (hd fires) f) 0.93) ''#000000'' fires
     @ layer (\<lambda>f. aboutCentroid (align (hd fires) f) 0.84) (outer fireColor) fires
     @ layer (\<lambda>f. aboutBase (align (hd fires) f) 0.55) (middle fireColor) fires
     @ firePath (aboutBase (hd fires) 0.3) (inner fireColor)"

fun fillColours :: "string \<Rightarrow> call list \<Rightarrow> string list" where
  "fillColours style [] = []"
| "fillColours style (SetFillStyle c # cs) = fillColours c cs"
| "fillColours style (Fill # cs) = style # fillColours style cs"
| "fillColours style (_ # cs) = fillColours style cs"

section \<open>The generator\<close>

lemma js_rem_int:
  assumes "0 \<le> a" "0 < d"
  shows "js_rem (of_int a) (of_int d) = of_int (a mod d)"
proof -
  have "(of_int a :: real) / of_int d \<ge> 0" using assms by simp
  then have "js_trunc (of_int a / of_int d) = a div d"
    by (simp add: js_trunc_def floor_divide_of_int_eq)
  then show ?thesis
    by (simp add: js_rem_def minus_div_mult_eq_mod [symmetric] algebra_simps)
qed

lemma nextIntBet_int:
  assumes "lo < hi"
  shows "fst (nextIntBet g (of_int lo) (of_int hi)) = of_int (lo + \<bar>fst (nextInt g)\<bar> mod (hi - lo))"
proof -
  have d: "\<not> (real_of_int hi - real_of_int lo \<le> 0)" using assms by simp
  have "js_rem (of_int \<bar>fst (nextInt g)\<bar>) (of_int hi - of_int lo) = of_int (\<bar>fst (nextInt g)\<bar> mod (hi - lo))"
    using js_rem_int [of "\<bar>fst (nextInt g)\<bar>" "hi - lo"] assms by simp
  then show ?thesis using d
    by (simp add: nextIntBet_def split_beta Let_def)
qed

lemma nextIntBet_empty: "to \<le> from \<Longrightarrow> nextIntBet g from to = (0, g)"
  by (simp add: nextIntBet_def)

lemma js_rem_bounds:
  assumes "0 \<le> a" "0 < b"
  shows "0 \<le> js_rem a b" and "js_rem a b < b"
proof -
  have q: "0 \<le> a / b" using assms by simp
  then have t: "js_trunc (a / b) = \<lfloor>a / b\<rfloor>" by (simp add: js_trunc_def)
  have e: "js_rem a b = b * (a / b - of_int \<lfloor>a / b\<rfloor>)"
    using assms by (simp add: js_rem_def t algebra_simps)
  have "0 \<le> a / b - of_int \<lfloor>a / b\<rfloor>" "a / b - of_int \<lfloor>a / b\<rfloor> < 1"
    by linarith+
  then show "0 \<le> js_rem a b" and "js_rem a b < b"
    unfolding e using assms(2) by (simp_all add: mult_less_cancel_left2)
qed

lemma nextIntBet_bounds:
  assumes "from < to"
  shows "from \<le> fst (nextIntBet g from to)" and "fst (nextIntBet g from to) < to"
proof -
  have e: "fst (nextIntBet g from to) = from + js_rem (of_int \<bar>fst (nextInt g)\<bar>) (to - from)"
    using assms by (simp add: nextIntBet_def split_beta)
  have "0 \<le> js_rem (of_int \<bar>fst (nextInt g)\<bar>) (to - from)"
    "js_rem (of_int \<bar>fst (nextInt g)\<bar>) (to - from) < to - from"
    using assms by (simp_all add: js_rem_bounds)
  then show "from \<le> fst (nextIntBet g from to)" and "fst (nextIntBet g from to) < to"
    unfolding e by linarith+
qed

lemma minState_next: "fst (nextInt minState) = - 2147483648"
  by code_simp

subsection \<open>Rounding\<close>

lemma rne_int [simp]: "rne (of_int m) = m"
  by (simp add: rne_def)

lemma rne_ge_floor: "\<lfloor>y\<rfloor> \<le> rne y"
  by (simp add: rne_def Let_def)

lemma rne_le_ceiling: "rne y \<le> \<lceil>y\<rceil>"
  unfolding rne_def Let_def by (auto simp: ceiling_altdef)

lemma exponent64_int:
  assumes "0 < m"
  shows "exponent64 (of_int m) = bitlen m - 1" and "exponent64 (- of_int m) = bitlen m - 1"
proof -
  have "1 \<le> bitlen m" using assms bitlen_eq_zero_iff [of m] bitlen_nonneg [of m] by linarith
  then show "exponent64 (of_int m) = bitlen m - 1" "exponent64 (- of_int m) = bitlen m - 1"
    using assms by (simp_all add: exponent64_def)
qed

lemma round64_small:
  assumes "0 < m" and "m < 2 ^ 53"
  shows "round64 (of_int m) = of_int m" and "round64 (- of_int m) = - of_int m"
proof -
  have b1: "1 \<le> bitlen m" using assms bitlen_eq_zero_iff [of m] bitlen_nonneg [of m] by linarith
  have "bitlen m \<le> 53"
  proof (rule ccontr)
    assume "\<not> bitlen m \<le> 53"
    then have "53 \<le> nat (bitlen m - 1)" by simp
    then have "(2::int) ^ 53 \<le> 2 ^ nat (bitlen m - 1)"
      by (rule power_increasing) simp
    also have "\<dots> \<le> m" using bitlen_bounds [OF assms(1)] by simp
    finally show False using assms(2) by simp
  qed
  define k where "k = nat (53 - bitlen m)"
  have e: "bitlen m - 1 - 52 = - int k" using \<open>bitlen m \<le> 53\<close> by (simp add: k_def)
  have q: "(2::real) powi (bitlen m - 1 - 52) = 1 / 2 ^ k"
    unfolding e by (simp add: power_int_minus field_simps)
  have i: "real_of_int m / (1 / 2 ^ k) = of_int (m * 2 ^ k)" by simp
  have i': "- real_of_int m / (1 / 2 ^ k) = of_int (- m * 2 ^ k)" by simp
  show "round64 (of_int m) = of_int m"
    using assms(1) unfolding round64_def exponent64_int(1) [OF assms(1)] Let_def q i rne_int
    by simp
  show "round64 (- of_int m) = - of_int m"
    using assms(1) unfolding round64_def exponent64_int(2) [OF assms(1)] Let_def q i' rne_int
    by simp
qed

lemma round64_2p53: "round64 9007199254740992 = 9007199254740992"
  "round64 (- 9007199254740992) = - 9007199254740992"
  by code_simp+

lemma round64_int:
  assumes "\<bar>m\<bar> \<le> 2 ^ 53"
  shows "round64 (of_int m) = of_int m"
proof -
  consider "m = 0" | "0 < m" "m < 2 ^ 53" | "m = 2 ^ 53" | "m < 0" "- m < 2 ^ 53" | "m = - (2 ^ 53)"
    using assms by (cases "m < 0"; cases "m = 0"; cases "\<bar>m\<bar> = 2 ^ 53") auto
  then show ?thesis
  proof cases
    case 1
    then show ?thesis by (simp add: round64_def)
  next
    case 2
    then show ?thesis by (rule round64_small(1))
  next
    case 3
    then show ?thesis using round64_2p53(1) by simp
  next
    case 4
    then have "round64 (- of_int (- m)) = - of_int (- m)"
      by (intro round64_small(2)) simp_all
    then show ?thesis by simp
  next
    case 5
    then show ?thesis using round64_2p53(2) by simp
  qed
qed

lemma round64_large:
  assumes "2 ^ 53 < m"
  shows "(2::real) ^ 53 \<le> round64 (of_int m)"
proof -
  have m0: "0 < m" using assms by (smt (verit) zero_less_power)
  have b: "54 \<le> bitlen m"
  proof (rule ccontr)
    assume "\<not> 54 \<le> bitlen m"
    then have "nat (bitlen m) \<le> 53" by simp
    then have "(2::int) ^ nat (bitlen m) \<le> 2 ^ 53"
      by (rule power_increasing) simp
    moreover have "m < 2 ^ nat (bitlen m)" using bitlen_bounds [OF m0] by simp
    ultimately show False using assms by simp
  qed
  define j where "j = nat (bitlen m - 54)"
  have e: "bitlen m - 1 - 52 = int (Suc j)" using b by (simp add: j_def)
  have q: "(2::real) powi (bitlen m - 1 - 52) = 2 ^ Suc j"
    unfolding e by (simp only: power_int_of_nat)
  have n: "nat (bitlen m - 1) = 52 + Suc j" using b by (simp add: j_def)
  have "(2::int) ^ (52 + Suc j) \<le> m" using bitlen_bounds [OF m0] unfolding n by simp
  then have "((2::real) ^ 52) * 2 ^ Suc j \<le> of_int m"
    by (metis of_int_le_iff of_int_numeral of_int_power power_add)
  then have "(2::real) ^ 52 \<le> of_int m / 2 ^ Suc j"
    by (simp add: pos_le_divide_eq)
  then have "(2::int) ^ 52 \<le> \<lfloor>real_of_int m / 2 ^ Suc j\<rfloor>"
    by (simp add: le_floor_iff)
  then have r: "(2::int) ^ 52 \<le> rne (real_of_int m / 2 ^ Suc j)"
    using rne_ge_floor [of "real_of_int m / 2 ^ Suc j"] by linarith
  define Q where "Q = (2::real) ^ Suc j"
  define R where "R = real_of_int (rne (real_of_int m / 2 ^ Suc j))"
  have rd: "round64 (of_int m) = Q * R"
    using m0 unfolding round64_def exponent64_int(1) [OF m0] Let_def q Q_def R_def by simp
  have R52: "(2::real) ^ 52 \<le> R"
    unfolding R_def using r by (metis of_int_le_iff of_int_numeral of_int_power)
  have Q2: "(2::real) \<le> Q" unfolding Q_def by (simp add: self_le_power)
  have "(2::real) * 2 ^ 52 \<le> Q * R"
    using Q2 R52 by (rule mult_mono) (use Q2 in simp_all)
  then show ?thesis unfolding rd by simp
qed

lemma round64_nonpos:
  assumes "x \<le> 0"
  shows "round64 x \<le> 0"
proof (cases "x = 0")
  case True
  then show ?thesis by (simp add: round64_def)
next
  case False
  define q where "q = (2::real) powi (exponent64 x - 52)"
  have q0: "0 < q" by (simp add: q_def)
  have "x / q \<le> 0" using assms q0 by (simp add: divide_le_0_iff)
  then have "\<lceil>x / q\<rceil> \<le> 0" by simp
  then have "rne (x / q) \<le> 0" using rne_le_ceiling [of "x / q"] by linarith
  then have "q * of_int (rne (x / q)) \<le> 0"
    using q0 by (simp add: mult_le_0_iff)
  then show ?thesis using False by (simp add: round64_def Let_def q_def)
qed

subsection \<open>The range function in binary64\<close>

lemma js_rem_less:
  assumes "0 \<le> a" "a < b"
  shows "js_rem a b = a"
proof -
  have "0 \<le> a / b" "a / b < 1" using assms by simp_all
  then have "js_trunc (a / b) = 0" by (simp add: js_trunc_def floor_eq_iff)
  then show ?thesis by (simp add: js_rem_def)
qed

lemma nextInt_abs: "\<bar>fst (nextInt g)\<bar> \<le> 2 ^ 31"
proof -
  obtain w :: "32 word" where "fst (nextInt g) = sint w"
    by (simp add: nextInt_def Let_def)
  moreover have "- (2 ^ 31) \<le> sint w" "sint w < 2 ^ 31"
    using sint_ge [of w] sint_lt [of w] by simp_all
  ultimately show ?thesis by simp
qed

lemma nextIntBet_binary64_int:
  assumes lo: "\<bar>lo\<bar> \<le> 2 ^ 53" and hi: "\<bar>hi\<bar> \<le> 2 ^ 53" and lt: "lo < hi"
  shows "fst (nextIntBet_binary64 g (of_int lo) (of_int hi))
         = of_int (lo + \<bar>fst (nextInt g)\<bar> mod (hi - lo))"
proof -
  let ?n = "\<bar>fst (nextInt g)\<bar>"
  let ?d = "hi - lo"
  have n: "0 \<le> ?n" "?n \<le> 2 ^ 31" using nextInt_abs [of g] by simp_all
  have sub: "real_of_int hi - real_of_int lo = of_int ?d" by simp
  have r: "0 < round64 (of_int ?d) \<and> js_rem (of_int ?n) (round64 (of_int ?d)) = of_int (?n mod ?d)"
  proof (cases "?d \<le> 2 ^ 53")
    case True
    then have "round64 (of_int ?d) = of_int ?d" using lt by (intro round64_int) simp
    then show ?thesis using lt n js_rem_int [of ?n ?d] by simp
  next
    case False
    then have big: "(2::real) ^ 53 \<le> round64 (of_int ?d)" by (intro round64_large) simp
    have "real_of_int ?n \<le> 2 ^ 31" using n(2) by (metis of_int_le_iff of_int_numeral of_int_power)
    then have "real_of_int ?n < round64 (of_int ?d)" using big by simp
    then have "js_rem (of_int ?n) (round64 (of_int ?d)) = of_int ?n"
      using n(1) by (intro js_rem_less) simp_all
    moreover have "?n mod ?d = ?n" using n False by (intro mod_pos_pos_trivial) simp_all
    ultimately show ?thesis using big by simp
  qed
  have "0 \<le> ?n mod ?d" "?n mod ?d < ?d" using lt by simp_all
  then have "\<bar>lo + ?n mod ?d\<bar> \<le> 2 ^ 53" using lo hi by linarith
  then have e: "round64 (of_int (lo + ?n mod ?d)) = of_int (lo + ?n mod ?d)"
    by (rule round64_int)
  have "fst (nextIntBet_binary64 g (of_int lo) (of_int hi))
          = round64 (of_int lo + js_rem (of_int ?n) (round64 (of_int ?d)))"
    using r unfolding nextIntBet_binary64_def sub by (simp add: split_beta)
  also have "\<dots> = round64 (of_int (lo + ?n mod ?d))" using r by simp
  finally show ?thesis using e by simp
qed

text \<open>
  For whole bounds of magnitude at most \<open>2 ^ 53\<close>, which covers every call of
  \<open>nextIntBet\<close> with whole bounds that the repository makes on a canvas of such a
  width, the exact function is the rounded one.
\<close>

lemma nextIntBet_binary64_exact:
  assumes "\<bar>lo\<bar> \<le> 2 ^ 53" and "\<bar>hi\<bar> \<le> 2 ^ 53"
  shows "fst (nextIntBet_binary64 g (of_int lo) (of_int hi)) = fst (nextIntBet g (of_int lo) (of_int hi))"
proof (cases "lo < hi")
  case True
  then show ?thesis using nextIntBet_binary64_int [OF assms True] nextIntBet_int [OF True] by simp
next
  case False
  then have "real_of_int hi - real_of_int lo \<le> 0" by simp
  then have "round64 (real_of_int hi - real_of_int lo) \<le> 0" by (rule round64_nonpos)
  then show ?thesis using False by (simp add: nextIntBet_binary64_def nextIntBet_def)
qed

text \<open>
  C6, as amended. For every generator state and all integers \<open>lo\<close>, \<open>hi\<close> of magnitude
  at most \<open>2 ^ 53\<close>, the integers that binary64 holds without gaps: if \<open>hi > lo\<close>, then
  \<open>nextIntBet(lo, hi)\<close> is \<open>lo + (|next()| mod (hi - lo))\<close> and lies in \<open>[lo, hi)\<close>; if
  \<open>hi \<le> lo\<close>, it is 0. The state is arbitrary, so this covers the state whose next
  output is the most negative 32-bit integer, whose absolute value \<open>2 ^ 31\<close> is a
  number like any other.
\<close>

theorem nextIntBet_binary64_range:
  assumes "\<bar>lo\<bar> \<le> 2 ^ 53" and "\<bar>hi\<bar> \<le> 2 ^ 53"
  shows "(lo < hi \<longrightarrow>
      fst (nextIntBet_binary64 g (of_int lo) (of_int hi))
        = of_int (lo + \<bar>fst (nextInt g)\<bar> mod (hi - lo))
      \<and> of_int lo \<le> fst (nextIntBet_binary64 g (of_int lo) (of_int hi))
      \<and> fst (nextIntBet_binary64 g (of_int lo) (of_int hi)) < of_int hi)
   \<and> (hi \<le> lo \<longrightarrow> fst (nextIntBet_binary64 g (of_int lo) (of_int hi)) = 0)"
proof (intro conjI impI)
  assume h: "lo < hi"
  let ?r = "lo + \<bar>fst (nextInt g)\<bar> mod (hi - lo)"
  show e: "fst (nextIntBet_binary64 g (of_int lo) (of_int hi)) = of_int ?r"
    using assms h by (rule nextIntBet_binary64_int)
  have "0 \<le> \<bar>fst (nextInt g)\<bar> mod (hi - lo)" "\<bar>fst (nextInt g)\<bar> mod (hi - lo) < hi - lo"
    using h by simp_all
  then have "lo \<le> ?r" "?r < hi" by linarith+
  then show "of_int lo \<le> fst (nextIntBet_binary64 g (of_int lo) (of_int hi))"
    "fst (nextIntBet_binary64 g (of_int lo) (of_int hi)) < of_int hi"
    unfolding e by simp_all
next
  assume "hi \<le> lo"
  then have "real_of_int hi - real_of_int lo \<le> 0" by simp
  then have "round64 (real_of_int hi - real_of_int lo) \<le> 0" by (rule round64_nonpos)
  then show "fst (nextIntBet_binary64 g (of_int lo) (of_int hi)) = 0"
    by (simp add: nextIntBet_binary64_def)
qed

theorem nextIntBet_binary64_range_witness:
  "\<bar>0::int\<bar> \<le> 2 ^ 53 \<and> \<bar>3::int\<bar> \<le> 2 ^ 53 \<and> (0::int) < 3
    \<and> fst (nextInt minState) = - 2147483648
    \<and> fst (nextIntBet_binary64 minState 0 3) = 2
    \<and> \<bar>5::int\<bar> \<le> 2 ^ 53 \<and> (5::int) \<le> 5 \<and> fst (nextIntBet_binary64 minState 5 5) = 0"
  using nextIntBet_binary64_range [of 0 3 minState] nextIntBet_binary64_range [of 5 5 minState]
    minState_next
  by simp

text \<open>
  C6 as stated fails above \<open>2 ^ 53\<close>: \<open>lo = 2 ^ 53 + 2\<close> and \<open>hi = 2 ^ 53 + 4\<close> are numbers
  of the program, the state \<open>oddState\<close> gives \<open>next() = 1\<close>, and the sum
  \<open>lo + 1 = 2 ^ 53 + 3\<close> is rounded to \<open>2 ^ 53 + 4\<close>: the result is \<open>hi\<close>, outside
  \<open>[lo, hi)\<close> and different from \<open>lo + (|next()| mod (hi - lo))\<close>.
\<close>

theorem nextIntBet_binary64_counterexample:
  "(9007199254740994::int) < 9007199254740996
   \<and> round64 (of_int 9007199254740994) = of_int 9007199254740994
   \<and> round64 (of_int 9007199254740996) = of_int 9007199254740996
   \<and> fst (nextInt oddState) = 1
   \<and> fst (nextIntBet_binary64 oddState (of_int 9007199254740994) (of_int 9007199254740996))
       = of_int 9007199254740996
   \<and> \<not> fst (nextIntBet_binary64 oddState (of_int 9007199254740994) (of_int 9007199254740996))
       < of_int 9007199254740996"
  by code_simp

lemma nextIntBet_2_4: "fst (nextIntBet g 2 4) = 2 \<or> fst (nextIntBet g 2 4) = 3"
proof -
  let ?n = "\<bar>fst (nextInt g)\<bar>"
  have "fst (nextIntBet g (of_int 2) (of_int 4)) = of_int (2 + ?n mod (4 - 2))"
    by (rule nextIntBet_int) simp
  moreover have "?n mod 2 = 0 \<or> ?n mod 2 = 1" by presburger
  ultimately show ?thesis by auto
qed

lemma nextIntBet_0_1: "fst (nextIntBet g 0 1) = 0"
  using nextIntBet_int [of 0 1 g] by simp

subsection \<open>Seeding\<close>

lemma upt4: "[0..<4] = [0, 1, 2, 3]"
  by code_simp

lemma seed_words:
  "getDeterministicRandomBy a =
     \<lparr>st_x = chunk a 3, st_y = chunk a 2, st_z = chunk a 1, st_w = chunk a 0\<rparr>"
  by (simp add: getDeterministicRandomBy_def upt4)

lemma parseInt16_empty: "parseInt16 [] = NaN"
  by (simp add: parseInt16_def)

lemma chunk_beyond:
  assumes "1 \<le> i" and "int (length a) \<le> 4 * i"
  shows "chunk a i = NaN"
proof -
  have "str_slice a (int (length a) - 8 * (i + 1)) (int (length a) - 8 * (i + 1) + 8) = []"
    using assms by (simp add: str_slice_def Let_def)
  then show ?thesis by (simp add: chunk_def Let_def parseInt16_empty)
qed

lemma chunk_inside:
  assumes "0 \<le> i" and "8 * (i + 1) \<le> int (length a)"
  shows "chunk a i = parseInt16 (take 8 (drop (length a - nat (8 * (i + 1))) a))"
proof -
  have "str_slice a (int (length a) - 8 * (i + 1)) (int (length a) - 8 * (i + 1) + 8)
        = take 8 (drop (length a - nat (8 * (i + 1))) a)"
    using assms by (simp add: str_slice_def Let_def nat_diff_distrib' min_def max_def)
  then show ?thesis by (simp add: chunk_def Let_def)
qed

lemma length_golden: "length golden = 40"
  by code_simp

text \<open>
  C3, as amended. Seeding never fails: \<open>getDeterministicRandomBy\<close> returns a generator
  state for every identifier. With 32 characters or more, the four words are the
  8-character chunks of the last 32 characters, parsed in base 16. With fewer, a state is
  still built, without any notice: the word \<open>x\<close> of an identifier of at most 12
  characters, the word \<open>y\<close> of one of at most 8 and the word \<open>z\<close> of one of at most 4
  are NaN, which the 32-bit operations of \<open>nextInt\<close> read as 0.
\<close>

theorem seeding_never_fails:
  "(32 \<le> length a \<longrightarrow>
      getDeterministicRandomBy a =
        \<lparr>st_x = parseInt16 (take 8 (drop (length a - 32) a)),
         st_y = parseInt16 (take 8 (drop (length a - 24) a)),
         st_z = parseInt16 (take 8 (drop (length a - 16) a)),
         st_w = parseInt16 (take 8 (drop (length a - 8) a))\<rparr>)
   \<and> (length a \<le> 12 \<longrightarrow> st_x (getDeterministicRandomBy a) = NaN)
   \<and> (length a \<le> 8 \<longrightarrow> st_y (getDeterministicRandomBy a) = NaN)
   \<and> (length a \<le> 4 \<longrightarrow> st_z (getDeterministicRandomBy a) = NaN)
   \<and> toInt32 NaN = 0"
proof (intro conjI impI)
  assume l: "32 \<le> length a"
  show "getDeterministicRandomBy a =
        \<lparr>st_x = parseInt16 (take 8 (drop (length a - 32) a)),
         st_y = parseInt16 (take 8 (drop (length a - 24) a)),
         st_z = parseInt16 (take 8 (drop (length a - 16) a)),
         st_w = parseInt16 (take 8 (drop (length a - 8) a))\<rparr>"
    using l chunk_inside [of 3 a] chunk_inside [of 2 a] chunk_inside [of 1 a] chunk_inside [of 0 a]
    by (simp add: seed_words)
next
  assume "length a \<le> 12"
  then show "st_x (getDeterministicRandomBy a) = NaN"
    using chunk_beyond [of 3 a] by (simp add: seed_words)
next
  assume "length a \<le> 8"
  then show "st_y (getDeterministicRandomBy a) = NaN"
    using chunk_beyond [of 2 a] by (simp add: seed_words)
next
  assume "length a \<le> 4"
  then show "st_z (getDeterministicRandomBy a) = NaN"
    using chunk_beyond [of 1 a] by (simp add: seed_words)
next
  show "toInt32 NaN = 0" by simp
qed

theorem seeding_never_fails_witness:
  "32 \<le> length golden
   \<and> getDeterministicRandomBy golden =
        \<lparr>st_x = parseInt16 (take 8 (drop (length golden - 32) golden)),
         st_y = parseInt16 (take 8 (drop (length golden - 24) golden)),
         st_z = parseInt16 (take 8 (drop (length golden - 16) golden)),
         st_w = parseInt16 (take 8 (drop (length golden - 8) golden))\<rparr>
   \<and> length ''0xaa'' \<le> 4
   \<and> st_x (getDeterministicRandomBy ''0xaa'') = NaN
   \<and> st_y (getDeterministicRandomBy ''0xaa'') = NaN
   \<and> st_z (getDeterministicRandomBy ''0xaa'') = NaN"
  using seeding_never_fails [of golden] seeding_never_fails [of "''0xaa''"] length_golden
  by simp

text \<open>
  C3 as stated fails: the identifier \<open>0xaa\<close> has fewer than 32 hexadecimal characters,
  and seeding builds a state from it, from which the generator runs.
\<close>

theorem seeding_short_counterexample:
  "length ''0xaa'' < 32
   \<and> getDeterministicRandomBy ''0xaa'' = \<lparr>st_x = NaN, st_y = NaN, st_z = NaN, st_w = Num 170\<rparr>
   \<and> fst (nextInt (getDeterministicRandomBy ''0xaa'')) = 170"
  by code_simp

section \<open>Tiers\<close>

lemma tierLoop_step:
  "i < 7 \<Longrightarrow> tierLoop c i = (if c < tierBoundaries ! i then i else tierLoop c (Suc i))"
  by (subst tierLoop.simps) (simp add: tierBoundaries_def)

lemma tierLoop_end: "tierLoop c 7 = 7"
  by (subst tierLoop.simps) (simp add: tierBoundaries_def)

lemma tierLoop_unfold:
  "tierLoop c 0 =
     (if c < 50000 then 0 else if c < 100000 then 1 else if c < 500000 then 2
      else if c < 1000000 then 3 else if c < 5000000 then 4 else if c < 10000000 then 5
      else if c < 50000000 then 6 else 7)"
proof -
  have s: "Suc 0 = 1" "Suc 1 = 2" "Suc 2 = 3" "Suc 3 = 4" "Suc 4 = 5" "Suc 5 = 6" "Suc 6 = 7"
    by simp_all
  have n: "tierBoundaries ! 0 = 50000" "tierBoundaries ! 1 = 100000" "tierBoundaries ! 2 = 500000"
    "tierBoundaries ! 3 = 1000000" "tierBoundaries ! 4 = 5000000" "tierBoundaries ! 5 = 10000000"
    "tierBoundaries ! 6 = 50000000"
    by (simp_all add: tierBoundaries_def)
  show ?thesis
    using tierLoop_step [of 0 c] tierLoop_step [of 1 c] tierLoop_step [of 2 c]
      tierLoop_step [of 3 c] tierLoop_step [of 4 c] tierLoop_step [of 5 c]
      tierLoop_step [of 6 c] tierLoop_end [of c]
    unfolding s n by (simp del: tierLoop.simps)
qed

lemma checkTierOf_bounds: "1 \<le> checkTierOf c \<and> checkTierOf c \<le> 8"
  by (simp add: checkTierOf_def tierLoop_unfold del: tierLoop.simps)

lemma length_tierFireColor: "length tierFireColor = 8"
  by (simp add: tierFireColor_def)

lemma palette_index: "checkTierOf c - 1 < length tierFireColor"
  using checkTierOf_bounds [of c] unfolding length_tierFireColor by arith

lemma palette_in_bounds:
  "getTieredFireColor (checkTierOf c) = Some (tierFireColor ! (checkTierOf c - 1))"
  using checkTierOf_bounds [of c] palette_index [of c] by (simp add: getTieredFireColor_def)

text \<open>
  C7. For every counter, in particular every non-negative one, \<open>checkTierOf\<close> returns 1
  plus the number of boundaries of the table that the counter is greater than or equal
  to, so the result lies in \<open>[1, 8]\<close>; and \<open>checkTierOf(49999) = 1\<close>,
  \<open>checkTierOf(50000) = 2\<close>, \<open>checkTierOf(50000000) = 8\<close>, \<open>checkTierOf(999999999) = 8\<close>.
\<close>

theorem checkTierOf_spec:
  "tierBoundaries = [50000, 100000, 500000, 1000000, 5000000, 10000000, 50000000]
   \<and> checkTierOf c = 1 + length (filter (\<lambda>b. c \<ge> b) tierBoundaries)
   \<and> 1 \<le> checkTierOf c \<and> checkTierOf c \<le> 8
   \<and> checkTierOf 49999 = 1 \<and> checkTierOf 50000 = 2
   \<and> checkTierOf 50000000 = 8 \<and> checkTierOf 999999999 = 8"
  by (simp add: checkTierOf_def tierLoop_unfold tierBoundaries_def del: tierLoop.simps)

section \<open>Placement\<close>

text \<open>
  C4 fails on the program: the angle returned by \<open>determineBarAngleRad\<close> is always the
  start angle plus the picked move, and never that angle plus \<open>pi\<close>. The draw that
  decides the flip is \<open>nextIntBet(0, 1)\<close>, whose range \<open>[0, 1)\<close> holds 0 alone, so the
  branch \<open>lr == 1\<close> is never taken.
\<close>

theorem flip_never:
  "fst (determineBarAngleRad g startAngle endAngle) =
     startAngle + fst (nextIntBet (snd (nextIntBet g 0 1)) 0 ((endAngle - startAngle) * 180 / pi)) * pi / 180
   \<and> fst (determineBarAngleRad g startAngle endAngle) \<noteq>
     startAngle + fst (nextIntBet (snd (nextIntBet g 0 1)) 0 ((endAngle - startAngle) * 180 / pi)) * pi / 180 + pi"
proof -
  have "fst (nextIntBet g 0 1) \<noteq> 1" using nextIntBet_0_1 [of g] by simp
  then show ?thesis
    by (simp add: determineBarAngleRad_def split_beta Let_def)
qed

lemma frame_seed0: "frame seed0 = \<lparr>rx1 = 120, ry1 = 70, rx2 = 392, ry2 = 512\<rparr>"
  by (simp add: seed0_def bezierFireSeeds_def)







subsection \<open>The angle range\<close>

lemma barCentre_y:
  "py (barCentre seed canvasWidth g) = 0
   \<or> py (barCentre seed canvasWidth g) < ry1 (frame seed) + (ry2 (frame seed) - ry1 (frame seed)) / 2"
proof -
  obtain n g1 where n: "nextIntBet g 51 (rx2 (frame seed) - rx1 (frame seed)) = (n, g1)"
    by (cases "nextIntBet g 51 (rx2 (frame seed) - rx1 (frame seed))")
  define radius where "radius = of_int \<lfloor>n / 2\<rfloor> * 2 / (2::real)"
  define yhi where "yhi = ry1 (frame seed) + (ry2 (frame seed) - ry1 (frame seed)) / 2"
  obtain mx g2 where mx: "nextIntBet g1 radius (canvasWidth - radius) = (mx, g2)"
    by (cases "nextIntBet g1 radius (canvasWidth - radius)")
  obtain my g3 where my: "nextIntBet g2 radius yhi = (my, g3)"
    by (cases "nextIntBet g2 radius yhi")
  have c: "nextTransform_centre seed canvasWidth g =
      ((radius, \<lparr>rx1 = radius, ry1 = radius, rx2 = canvasWidth - radius, ry2 = yhi\<rparr>,
        \<lparr>px = mx, py = my\<rparr>), g3)"
    unfolding nextTransform_centre_def determineCenterPoint_def Let_def n prod.case
      radius_def [symmetric] yhi_def [symmetric]
    by (simp add: mx my)
  have cy: "py (barCentre seed canvasWidth g) = my"
    by (simp add: barCentre_def c)
  have "my = 0 \<or> my < yhi"
  proof (cases "radius < yhi")
    case True
    then show ?thesis using nextIntBet_bounds(2) [of radius yhi g2] my by simp
  next
    case False
    then show ?thesis using nextIntBet_empty [of yhi radius g2] my by simp
  qed
  then show ?thesis unfolding cy yhi_def .
qed

lemma atanQuotient_Some:
  assumes "a \<noteq> 0"
  shows "\<exists>t. atanQuotient a b = Some t"
proof -
  consider "b \<noteq> 0" | "b = 0" "0 < a" | "b = 0" "a < 0"
    using assms by linarith
  then show ?thesis
  proof cases
    case 1
    then have "atanQuotient a b = Some (arctan (a / b))" by (simp add: atanQuotient_def)
    then show ?thesis by blast
  next
    case 2
    then have "atanQuotient a b = Some (pi / 2)" by (simp add: atanQuotient_def)
    then show ?thesis by blast
  next
    case 3
    then have "atanQuotient a b = Some (- (pi / 2))" by (simp add: atanQuotient_def)
    then show ?thesis by blast
  qed
qed

lemma calcBarAngleRange_Some:
  assumes "midpointY \<noteq> ry2 (frame seed)"
  shows "\<exists>r. calcBarAngleRange seed midpointX midpointY = Some r"
proof -
  have a: "midpointY - ry2 (frame seed) \<noteq> 0" using assms by simp
  obtain t1 where t1: "atanQuotient (midpointY - ry2 (frame seed)) (midpointX - rx1 (frame seed)) = Some t1"
    using atanQuotient_Some [OF a] by blast
  obtain t2 where t2: "atanQuotient (midpointY - ry2 (frame seed)) (midpointX - rx2 (frame seed)) = Some t2"
    using atanQuotient_Some [OF a] by blast
  show ?thesis
    by (simp add: calcBarAngleRange_def Let_def t1 t2 split_beta)
qed

text \<open>
  With the seed shape of the library the bar centre lies above the lower edge of the
  frame, so no angle is NaN and \<open>nextTransform\<close> gives a transform.
\<close>

lemma nextTransform_seed0: "\<exists>T g'. nextTransform seed0 canvasWidth g = Some (T, g')"
proof -
  obtain radius r c g2 where c: "nextTransform_centre seed0 canvasWidth g = ((radius, r, c), g2)"
    by (metis prod.collapse)
  have "py (barCentre seed0 canvasWidth g) = py c" by (simp add: barCentre_def c)
  then have "py c = 0 \<or> py c < 291"
    using barCentre_y [of seed0 canvasWidth g] by (simp add: frame_seed0)
  then have "py c \<noteq> ry2 (frame seed0)" by (auto simp: frame_seed0)
  then obtain s e where "calcBarAngleRange seed0 (px c) (py c) = Some (s, e)"
    using calcBarAngleRange_Some [of "py c" seed0 "px c"] by auto
  then show ?thesis
    by (simp add: nextTransform_def c Let_def split_beta)
qed

text \<open>
  A divisor 0: for \<open>identifierB\<close> on a canvas 512 wide, \<open>renderImage\<close> draws 3 instances;
  the seed index is drawn from an empty range and leaves the generator as it is, so
  the second instance calls \<open>nextTransform\<close> with the state reached once the count is
  drawn. The bar centre then has \<open>x = 120 = frame.x1\<close>, and \<open>calcBarAngleRange\<close> divides
  by \<open>midpointX - frame.x1 = 0\<close>; the start angle is \<open>- pi / 2 + pi / 6\<close>.
\<close>

lemma centre_on_frame_edge:
  "fst (nextIntBet (getDeterministicRandomBy identifierB) 2 4) = 3
   \<and> nextIntBet (afterCount identifierB) 0 (real (length bezierFireSeeds) - 1)
       = (0, afterCount identifierB)
   \<and> seedAt 0 = Some seed0
   \<and> barCentre seed0 512 (afterCount identifierB) = \<lparr>px = 120, py = 183\<rparr>
   \<and> px (barCentre seed0 512 (afterCount identifierB)) - rx1 (frame seed0) = 0"
  by code_simp

lemma start_angle_on_frame_edge:
  "map_option fst (calcBarAngleRange seed0 120 183) = Some (- (pi / 3))"
  by (simp add: calcBarAngleRange_def atanQuotient_def frame_seed0 degreeToRad_def Let_def)

section \<open>The homography\<close>

lemma invert_adjugate:
  "mat4_det a \<noteq> 0 \<Longrightarrow> mat4_invert a = scaleM (1 / mat4_det a) (adjugate a)"
  by (simp add: mat4_invert_def adjugate_def Let_def)

lemma mulv_scaleM: "mulv (scaleM d m) v = smul d (mulv m v)"
  by (cases m; cases v) (simp add: mulv_def smul_def krows_def algebra_simps)

lemma mul_adjugate: "mulv a (mulv (adjugate a) v) = smul (mat4_det a) v"
proof (cases a)
  case (Mat4 a0 a1 a2 a3 a4 a5 a6 a7 a8 a9 a10 a11 a12 a13 a14 a15)
  obtain v1 v2 v3 v4 where v: "v = (v1, v2, v3, v4)" by (cases v) auto
  show ?thesis
    unfolding Mat4 v mulv_def smul_def krows_def adjugate_def mat4_det_def Let_def
    apply (simp only: mat4.sel prod.case prod.inject)
    apply (intro conjI)
       apply (simp add: algebra_simps)
      apply (simp add: algebra_simps)
     apply (simp add: algebra_simps)
    apply (simp add: algebra_simps)
    done
qed

lemma mulv_smul: "mulv a (smul c v) = smul c (mulv a v)"
  by (cases v) (simp add: mulv_def smul_def krows_def algebra_simps)

lemma smul_smul: "smul c (smul d v) = smul (c * d) v"
  by (cases v) (simp add: smul_def)

lemma smul_one: "smul 1 v = v"
  by (cases v) (simp add: smul_def)

lemma invert_solves:
  assumes "mat4_det a \<noteq> 0"
  shows "mulv a (mulv (mat4_invert a) v) = v"
proof -
  have "mulv a (mulv (mat4_invert a) v) = smul (1 / mat4_det a) (smul (mat4_det a) v)"
    by (simp add: invert_adjugate [OF assms] mulv_scaleM mulv_smul mul_adjugate)
  also have "\<dots> = v" using assms by (simp add: smul_smul smul_one)
  finally show ?thesis .
qed

lemma ksums_krows: "ksums t = krows t 1 1 1 1"
  by (simp add: ksums_def krows_def)

lemma corner_maps:
  fixes X Y x y :: real
  assumes ex: "X * kx1 + Y * kx2 + (- (X * x)) * kx3 + (- (Y * x)) * kx4 = x"
      and ec: "X * kc1 + Y * kc2 + (- (X * x)) * kc3 + (- (Y * x)) * kc4 = 1"
      and ey: "X * ky1 + Y * ky2 + (- (X * y)) * ky3 + (- (Y * y)) * ky4 = y"
      and ef: "X * kf1 + Y * kf2 + (- (X * y)) * kf3 + (- (Y * y)) * kf4 = 1"
      and g: "kx3 - C * kc3 = ky3 - F * kf3"
      and h: "kx4 - C * kc4 = ky4 - F * kf4"
      and z: "X * (kx3 - C * kc3) + Y * (kx4 - C * kc4) + 1 \<noteq> 0"
  shows "(X * (kx1 - C * kc1) + Y * (kx2 - C * kc2) + C) / (X * (kx3 - C * kc3) + Y * (kx4 - C * kc4) + 1) = x"
    and "(X * (ky1 - F * kf1) + Y * (ky2 - F * kf2) + F) / (X * (kx3 - C * kc3) + Y * (kx4 - C * kc4) + 1) = y"
proof -
  let ?z = "X * (kx3 - C * kc3) + Y * (kx4 - C * kc4) + 1"
  have "X * (kx1 - C * kc1) + Y * (kx2 - C * kc2) + C
        = (X * kx1 + Y * kx2) - C * (X * kc1 + Y * kc2) + C"
    by (simp add: algebra_simps)
  also have "X * kx1 + Y * kx2 = x + X * x * kx3 + Y * x * kx4"
    using ex by (simp add: algebra_simps)
  also have "X * kc1 + Y * kc2 = 1 + X * x * kc3 + Y * x * kc4"
    using ec by (simp add: algebra_simps)
  finally have nx: "X * (kx1 - C * kc1) + Y * (kx2 - C * kc2) + C = x * ?z"
    by (simp add: algebra_simps)
  show "(X * (kx1 - C * kc1) + Y * (kx2 - C * kc2) + C) / ?z = x"
    unfolding nx using z by simp
  have z': "?z = X * (ky3 - F * kf3) + Y * (ky4 - F * kf4) + 1"
    using g h by simp
  have "X * (ky1 - F * kf1) + Y * (ky2 - F * kf2) + F
        = (X * ky1 + Y * ky2) - F * (X * kf1 + Y * kf2) + F"
    by (simp add: algebra_simps)
  also have "X * ky1 + Y * ky2 = y + X * y * ky3 + Y * y * ky4"
    using ey by (simp add: algebra_simps)
  also have "X * kf1 + Y * kf2 = 1 + X * y * kf3 + Y * y * kf4"
    using ef by (simp add: algebra_simps)
  finally have "X * (ky1 - F * kf1) + Y * (ky2 - F * kf2) + F
        = y * (X * (ky3 - F * kf3) + Y * (ky4 - F * kf4) + 1)"
    by (simp add: algebra_simps)
  then have ny: "X * (ky1 - F * kf1) + Y * (ky2 - F * kf2) + F = y * ?z"
    using z' by simp
  show "(X * (ky1 - F * kf1) + Y * (ky2 - F * kf2) + F) / ?z = y"
    unfolding ny using z by simp
qed

lemma translation_terms:
  fixes D :: real
  assumes D: "D = kc3 * (- kf4) - (- kf3) * kc4" and nz: "D \<noteq> 0"
      and C: "C = (- kf4 * (1 / D)) * (kx3 - ky3) + (kf3 * (1 / D)) * (kx4 - ky4)"
      and F: "F = (- kc4 * (1 / D)) * (kx3 - ky3) + (kc3 * (1 / D)) * (kx4 - ky4)"
  shows "kx3 - C * kc3 = ky3 - F * kf3" and "kx4 - C * kc4 = ky4 - F * kf4"
proof -
  have "(C * kc3 - F * kf3) * D = (kx3 - ky3) * D"
    unfolding C F using nz by (simp add: field_simps) (simp add: D algebra_simps)
  then have "C * kc3 - F * kf3 = kx3 - ky3" using nz by simp
  then show "kx3 - C * kc3 = ky3 - F * kf3" by simp
  have "(C * kc4 - F * kf4) * D = (kx4 - ky4) * D"
    unfolding C F using nz by (simp add: field_simps) (simp add: D algebra_simps)
  then have "C * kc4 - F * kf4 = kx4 - ky4" using nz by simp
  then show "kx4 - C * kc4 = ky4 - F * kf4" by simp
qed

lemma solved_rows:
  assumes T: "T = Mat4 X1 Y1 (- (X1 * v1)) (- (Y1 * v1)) X2 Y2 (- (X2 * v2)) (- (Y2 * v2))
                       X3 Y3 (- (X3 * v3)) (- (Y3 * v3)) X4 Y4 (- (X4 * v4)) (- (Y4 * v4))"
    and det: "mat4_det T \<noteq> 0"
    and k: "krows (mat4_invert T) u1 u2 u3 u4 = (k1, k2, k3, k4)"
  shows "X1 * k1 + Y1 * k2 + (- (X1 * v1)) * k3 + (- (Y1 * v1)) * k4 = u1"
    and "X2 * k1 + Y2 * k2 + (- (X2 * v2)) * k3 + (- (Y2 * v2)) * k4 = u2"
    and "X3 * k1 + Y3 * k2 + (- (X3 * v3)) * k3 + (- (Y3 * v3)) * k4 = u3"
    and "X4 * k1 + Y4 * k2 + (- (X4 * v4)) * k3 + (- (Y4 * v4)) * k4 = u4"
proof -
  have "mulv T (mulv (mat4_invert T) (u1, u2, u3, u4)) = (u1, u2, u3, u4)"
    using det by (rule invert_solves)
  then have "krows T k1 k2 k3 k4 = (u1, u2, u3, u4)"
    by (simp add: mulv_def k)
  then show "X1 * k1 + Y1 * k2 + (- (X1 * v1)) * k3 + (- (Y1 * v1)) * k4 = u1"
    and "X2 * k1 + Y2 * k2 + (- (X2 * v2)) * k3 + (- (Y2 * v2)) * k4 = u2"
    and "X3 * k1 + Y3 * k2 + (- (X3 * v3)) * k3 + (- (Y3 * v3)) * k4 = u3"
    and "X4 * k1 + Y4 * k2 + (- (X4 * v4)) * k3 + (- (Y4 * v4)) * k4 = u4"
    by (simp_all add: krows_def T)
qed

lemma matrix_AB:
  "calcProjectionMatrix quadA quadB =
     Param (19 / 20) (- (11 / 20)) (6 / 5) (- (9 / 20)) (9 / 20) (8 / 5) (- (1 / 20)) (- (3 / 20)) 1"
  by (simp add: calcProjectionMatrix_def tmatrix_def Zquad_def Z_def quadA_def quadB_def
      mat4_invert_def mat4_det_def krows_def ksums_def Let_def)

lemma matrix_A0B0:
  "calcProjectionMatrix quadA0 quadB0 = Param (4 / 3) 0 (1 / 3) 0 (4 / 3) (1 / 3) 0 0 1"
  by (simp add: calcProjectionMatrix_def tmatrix_def Zquad_def Z_def quadA0_def quadB0_def
      mat4_invert_def mat4_det_def krows_def ksums_def Let_def)

lemma matrix_CD:
  "calcProjectionMatrix quadC quadD = Param 1 0 (- 1) 0 1 (- 1) (- (1 / 2)) (- (1 / 2)) 1"
  by (simp add: calcProjectionMatrix_def tmatrix_def Zquad_def Z_def quadC_def quadD_def
      mat4_invert_def mat4_det_def krows_def ksums_def Let_def)

text \<open>
  C9, as amended. For every pair of quadrilaterals A and B none of whose coordinates is
  0, for which the two 4x4 systems and the translation-term determinant are
  non-singular and the projective divisor \<open>z\<close> is not 0 at the corners of A, applying
  the homography of \<open>createTransformBy({src: A, dest: B})\<close> to each corner of A gives the
  corresponding corner of B, exactly, in exact arithmetic.
\<close>

theorem homography_roundtrip:
  assumes nzA: "noZero A" and nzB: "noZero B"
    and detx: "mat4_det (tmatrix fst A B) \<noteq> 0"
    and dety: "mat4_det (tmatrix snd A B) \<noteq> 0"
    and det1: "det_1 A B \<noteq> 0"
    and zs: "\<forall>p \<in> set (corners A). projectiveDivisor (createTransformBy \<lparr>src = A, dest = B\<rparr>) p \<noteq> 0"
  shows "map (\<lambda>(x, y). transform (createTransformBy \<lparr>src = A, dest = B\<rparr>) x y) (corners A)
         = corners B"
proof -
  obtain X1 Y1 X2 Y2 X3 Y3 X4 Y4 where A: "A = ((X1, Y1), (X2, Y2), (X3, Y3), (X4, Y4))"
    by (metis prod.collapse)
  obtain x1 y1 x2 y2 x3 y3 x4 y4 where B: "B = ((x1, y1), (x2, y2), (x3, y3), (x4, y4))"
    by (metis prod.collapse)
  have ZA: "Zquad A = A" using nzA by (simp add: noZero_def Zquad_def Z_def A)
  have ZB: "Zquad B = B" using nzB by (simp add: noZero_def Zquad_def Z_def B)
  let ?Tx = "Mat4 X1 Y1 (- (X1 * x1)) (- (Y1 * x1)) X2 Y2 (- (X2 * x2)) (- (Y2 * x2))
                  X3 Y3 (- (X3 * x3)) (- (Y3 * x3)) X4 Y4 (- (X4 * x4)) (- (Y4 * x4))"
  let ?Ty = "Mat4 X1 Y1 (- (X1 * y1)) (- (Y1 * y1)) X2 Y2 (- (X2 * y2)) (- (Y2 * y2))
                  X3 Y3 (- (X3 * y3)) (- (Y3 * y3)) X4 Y4 (- (X4 * y4)) (- (Y4 * y4))"
  have Tx: "tmatrix fst A B = ?Tx" unfolding tmatrix_def ZA ZB by (simp add: A B)
  have Ty: "tmatrix snd A B = ?Ty" unfolding tmatrix_def ZA ZB by (simp add: A B)
  obtain kx1 kx2 kx3 kx4 where kx: "krows (mat4_invert ?Tx) x1 x2 x3 x4 = (kx1, kx2, kx3, kx4)"
    by (metis prod.collapse)
  obtain kc1 kc2 kc3 kc4 where kc: "krows (mat4_invert ?Tx) 1 1 1 1 = (kc1, kc2, kc3, kc4)"
    by (metis prod.collapse)
  obtain ky1 ky2 ky3 ky4 where ky: "krows (mat4_invert ?Ty) y1 y2 y3 y4 = (ky1, ky2, ky3, ky4)"
    by (metis prod.collapse)
  obtain kf1 kf2 kf3 kf4 where kf: "krows (mat4_invert ?Ty) 1 1 1 1 = (kf1, kf2, kf3, kf4)"
    by (metis prod.collapse)
  have dx: "mat4_det ?Tx \<noteq> 0" using detx unfolding Tx .
  have dy: "mat4_det ?Ty \<noteq> 0" using dety unfolding Ty .
  note ex = solved_rows [OF refl dx kx]
  note ec = solved_rows [OF refl dx kc]
  note ey = solved_rows [OF refl dy ky]
  note ef = solved_rows [OF refl dy kf]
  define D where "D = kc3 * (- kf4) - (- kf3) * kc4"
  define C where "C = (- kf4 * (1 / D)) * (kx3 - ky3) + (kf3 * (1 / D)) * (kx4 - ky4)"
  define F where "F = (- kc4 * (1 / D)) * (kx3 - ky3) + (kc3 * (1 / D)) * (kx4 - ky4)"
  have "det_1 A B = D"
    unfolding det_1_def Tx Ty ksums_krows D_def by (simp add: kc kf)
  then have Dnz: "D \<noteq> 0" using det1 by simp
  note gh = translation_terms [OF D_def Dnz C_def F_def]
  have M: "calcProjectionMatrix A B =
             Param (kx1 - C * kc1) (kx2 - C * kc2) C (ky1 - F * kf1) (ky2 - F * kf2) F
                   (kx3 - C * kc3) (kx4 - C * kc4) 1"
    unfolding calcProjectionMatrix_def ZB Tx Ty ksums_krows
    using Dnz unfolding D_def C_def F_def by (simp add: B kx kc ky kf Let_def)
  let ?T = "createTransformBy \<lparr>src = A, dest = B\<rparr>"
  have mat: "mat ?T = Param (kx1 - C * kc1) (kx2 - C * kc2) C (ky1 - F * kf1) (ky2 - F * kf2) F
                   (kx3 - C * kc3) (kx4 - C * kc4) 1"
    by (simp add: createTransformBy_def M)
  have z1: "X1 * (kx3 - C * kc3) + Y1 * (kx4 - C * kc4) + 1 \<noteq> 0"
    and z2: "X2 * (kx3 - C * kc3) + Y2 * (kx4 - C * kc4) + 1 \<noteq> 0"
    and z3: "X3 * (kx3 - C * kc3) + Y3 * (kx4 - C * kc4) + 1 \<noteq> 0"
    and z4: "X4 * (kx3 - C * kc3) + Y4 * (kx4 - C * kc4) + 1 \<noteq> 0"
  proof -
    have "\<forall>p \<in> set (corners A).
            fst p * (kx3 - C * kc3) + snd p * (kx4 - C * kc4) + 1 \<noteq> 0"
      using zs unfolding projectiveDivisor_def mat by simp
    then show "X1 * (kx3 - C * kc3) + Y1 * (kx4 - C * kc4) + 1 \<noteq> 0"
      and "X2 * (kx3 - C * kc3) + Y2 * (kx4 - C * kc4) + 1 \<noteq> 0"
      and "X3 * (kx3 - C * kc3) + Y3 * (kx4 - C * kc4) + 1 \<noteq> 0"
      and "X4 * (kx3 - C * kc3) + Y4 * (kx4 - C * kc4) + 1 \<noteq> 0"
      by (simp_all add: corners_def A)
  qed
  have t1: "transform ?T X1 Y1 = (x1, y1)"
    using corner_maps [OF ex(1) ec(1) ey(1) ef(1) gh z1] by (simp add: transform_def mat)
  have t2: "transform ?T X2 Y2 = (x2, y2)"
    using corner_maps [OF ex(2) ec(2) ey(2) ef(2) gh z2] by (simp add: transform_def mat)
  have t3: "transform ?T X3 Y3 = (x3, y3)"
    using corner_maps [OF ex(3) ec(3) ey(3) ef(3) gh z3] by (simp add: transform_def mat)
  have t4: "transform ?T X4 Y4 = (x4, y4)"
    using corner_maps [OF ex(4) ec(4) ey(4) ef(4) gh z4] by (simp add: transform_def mat)
  show ?thesis
    using t1 t2 t3 t4 by (simp add: corners_def A B)
qed

theorem homography_roundtrip_witness:
  "noZero quadA \<and> noZero quadB
   \<and> mat4_det (tmatrix fst quadA quadB) \<noteq> 0 \<and> mat4_det (tmatrix snd quadA quadB) \<noteq> 0
   \<and> det_1 quadA quadB \<noteq> 0
   \<and> corners quadA = [(1, 1), (3, 1), (3, 3), (1, 3)]
   \<and> projectiveDivisor (createTransformBy \<lparr>src = quadA, dest = quadB\<rparr>) (1, 1) \<noteq> 0
   \<and> projectiveDivisor (createTransformBy \<lparr>src = quadA, dest = quadB\<rparr>) (3, 1) \<noteq> 0
   \<and> projectiveDivisor (createTransformBy \<lparr>src = quadA, dest = quadB\<rparr>) (3, 3) \<noteq> 0
   \<and> projectiveDivisor (createTransformBy \<lparr>src = quadA, dest = quadB\<rparr>) (1, 3) \<noteq> 0
   \<and> map (\<lambda>(x, y). transform (createTransformBy \<lparr>src = quadA, dest = quadB\<rparr>) x y) (corners quadA)
         = corners quadB"
proof -
  have h1: "noZero quadA" by (simp add: noZero_def quadA_def)
  have h2: "noZero quadB" by (simp add: noZero_def quadB_def)
  have h3: "mat4_det (tmatrix fst quadA quadB) \<noteq> 0"
    by (simp add: tmatrix_def Zquad_def Z_def quadA_def quadB_def mat4_det_def)
  have h4: "mat4_det (tmatrix snd quadA quadB) \<noteq> 0"
    by (simp add: tmatrix_def Zquad_def Z_def quadA_def quadB_def mat4_det_def)
  have h5: "det_1 quadA quadB \<noteq> 0"
    by (simp add: det_1_def tmatrix_def Zquad_def Z_def quadA_def quadB_def
        mat4_invert_def mat4_det_def ksums_def Let_def)
  have c: "corners quadA = [(1, 1), (3, 1), (3, 3), (1, 3)]"
    by (simp add: corners_def quadA_def)
  have m: "mat (createTransformBy \<lparr>src = quadA, dest = quadB\<rparr>) =
      Param (19 / 20) (- (11 / 20)) (6 / 5) (- (9 / 20)) (9 / 20) (8 / 5) (- (1 / 20)) (- (3 / 20)) 1"
    by (simp add: createTransformBy_def matrix_AB)
  have h6: "\<forall>p \<in> set (corners quadA).
      projectiveDivisor (createTransformBy \<lparr>src = quadA, dest = quadB\<rparr>) p \<noteq> 0"
    unfolding c projectiveDivisor_def m by simp
  have z: "projectiveDivisor (createTransformBy \<lparr>src = quadA, dest = quadB\<rparr>) (1, 1) \<noteq> 0"
    "projectiveDivisor (createTransformBy \<lparr>src = quadA, dest = quadB\<rparr>) (3, 1) \<noteq> 0"
    "projectiveDivisor (createTransformBy \<lparr>src = quadA, dest = quadB\<rparr>) (3, 3) \<noteq> 0"
    "projectiveDivisor (createTransformBy \<lparr>src = quadA, dest = quadB\<rparr>) (1, 3) \<noteq> 0"
    using h6 unfolding c by simp_all
  show ?thesis
    using h1 h2 h3 h4 h5 c z homography_roundtrip [OF h1 h2 h3 h4 h5 h6] by blast
qed

text \<open>
  C9 as stated fails: the square \<open>quadA0\<close> has corners on the axes, the systems built
  from it and \<open>quadB0\<close> are non-singular, and the homography sends its corner \<open>(0, 0)\<close>
  to \<open>(1 / 3, 1 / 3)\<close>, not to the corner \<open>(1, 1)\<close> of \<open>quadB0\<close>: the solver has
  replaced the coordinate 0 by 0.5.
\<close>

theorem homography_zero_counterexample:
  "mat4_det (tmatrix fst quadA0 quadB0) \<noteq> 0 \<and> mat4_det (tmatrix snd quadA0 quadB0) \<noteq> 0
   \<and> det_1 quadA0 quadB0 \<noteq> 0
   \<and> transform (createTransformBy \<lparr>src = quadA0, dest = quadB0\<rparr>) 0 0 = (1 / 3, 1 / 3)
   \<and> map (\<lambda>(x, y). transform (createTransformBy \<lparr>src = quadA0, dest = quadB0\<rparr>) x y) (corners quadA0)
         \<noteq> corners quadB0"
proof -
  have m: "mat (createTransformBy \<lparr>src = quadA0, dest = quadB0\<rparr>) =
      Param (4 / 3) 0 (1 / 3) 0 (4 / 3) (1 / 3) 0 0 1"
    by (simp add: createTransformBy_def matrix_A0B0)
  have t: "transform (createTransformBy \<lparr>src = quadA0, dest = quadB0\<rparr>) 0 0 = (1 / 3, 1 / 3)"
    by (simp add: transform_def m)
  have d: "mat4_det (tmatrix fst quadA0 quadB0) \<noteq> 0" "mat4_det (tmatrix snd quadA0 quadB0) \<noteq> 0"
    by (simp_all add: tmatrix_def Zquad_def Z_def quadA0_def quadB0_def mat4_det_def)
  have d1: "det_1 quadA0 quadB0 \<noteq> 0"
    by (simp add: det_1_def tmatrix_def Zquad_def Z_def quadA0_def quadB0_def
        mat4_invert_def mat4_det_def ksums_def Let_def)
  have c: "corners quadA0 = [(0, 0), (2, 0), (2, 2), (0, 2)]"
    "corners quadB0 = [(1, 1), (3, 1), (3, 3), (1, 3)]"
    by (simp_all add: corners_def quadA0_def quadB0_def)
  show ?thesis
    unfolding c using d d1 t by simp
qed

text \<open>
  The divisor has to be assumed apart: for \<open>quadC\<close> and \<open>quadD\<close>, without a coordinate 0
  and with non-singular systems, it is 0 at the first corner of \<open>quadC\<close>, where the
  program computes \<open>0 / 0\<close>.
\<close>

lemma homography_divisor_zero:
  "noZero quadC \<and> noZero quadD
   \<and> mat4_det (tmatrix fst quadC quadD) \<noteq> 0 \<and> mat4_det (tmatrix snd quadC quadD) \<noteq> 0
   \<and> det_1 quadC quadD \<noteq> 0
   \<and> projectiveDivisor (createTransformBy \<lparr>src = quadC, dest = quadD\<rparr>) (1, 1) = 0"
proof -
  have m: "mat (createTransformBy \<lparr>src = quadC, dest = quadD\<rparr>) =
      Param 1 0 (- 1) 0 1 (- 1) (- (1 / 2)) (- (1 / 2)) 1"
    by (simp add: createTransformBy_def matrix_CD)
  have z: "projectiveDivisor (createTransformBy \<lparr>src = quadC, dest = quadD\<rparr>) (1, 1) = 0"
    unfolding projectiveDivisor_def m by simp
  have n: "noZero quadC" "noZero quadD"
    by (simp_all add: noZero_def quadC_def quadD_def)
  have d: "mat4_det (tmatrix fst quadC quadD) \<noteq> 0" "mat4_det (tmatrix snd quadC quadD) \<noteq> 0"
    by (simp_all add: tmatrix_def Zquad_def Z_def quadC_def quadD_def mat4_det_def)
  have d1: "det_1 quadC quadD \<noteq> 0"
    by (simp add: det_1_def tmatrix_def Zquad_def Z_def quadC_def quadD_def
        mat4_invert_def mat4_det_def ksums_def Let_def)
  show ?thesis using n d d1 z by simp
qed

section \<open>Drawing\<close>

lemma fold_snoc_map: "fold (\<lambda>p c. c @ [h p]) ps c0 = c0 @ map h ps"
  by (induction ps arbitrary: c0) simp_all

lemma drawBezierFire_path: "drawBezierFire ctx f col = ctx @ firePath f col"
  by (simp add: drawBezierFire_def firePath_def Let_def fold_snoc_map)

lemma fold_draw: "fold (\<lambda>fire c. c @ firePath (place fire) col) fires ctx = ctx @ layer place col fires"
  by (induction fires arbitrary: ctx) (simp_all add: layer_def)

lemma drawBezierFrame_calls:
  assumes "fires \<noteq> []"
  shows "drawBezierFrame ctx col fires = Inr (ctx @ layeredCalls col fires)"
proof -
  obtain b rest where f: "fires = b # rest" using assms by (cases fires) auto
  show ?thesis
    unfolding drawBezierFrame_def layeredCalls_def aboutCentroid_def aboutBase_def align_def
    by (simp only: f list.case Let_def drawBezierFire_path fold_draw list.sel append_assoc)
qed

lemma fillColours_curves:
  "fillColours s (map (\<lambda>p. BezierCurveTo (c1 p) (c2 p) (c3 p) (c4 p) (c5 p) (c6 p)) ps @ rest) = fillColours s rest"
  by (induction ps) simp_all

lemma fillColours_path: "fillColours s (firePath f col @ rest) = col # fillColours col rest"
  by (simp add: firePath_def fillColours_curves)

lemma fillColours_layer:
  "fires \<noteq> [] \<Longrightarrow>
   fillColours s (layer place col fires @ rest) = replicate (length fires) col @ fillColours col rest"
proof (induction fires arbitrary: s)
  case Nil
  then show ?case by simp
next
  case (Cons f fs)
  show ?case
  proof (cases "fs = []")
    case True
    then show ?thesis by (simp add: layer_def fillColours_path)
  next
    case False
    then have "fillColours col (layer place col fs @ rest) = replicate (length fs) col @ fillColours col rest"
      by (rule Cons.IH)
    then show ?thesis by (simp add: layer_def fillColours_path)
  qed
qed

lemma fillColours_layered:
  assumes "fires \<noteq> []"
  shows "fillColours s (layeredCalls col fires) =
     replicate (length fires) ''#ffffff'' @ replicate (length fires) ''#000000''
     @ replicate (length fires) (outer col) @ replicate (length fires) (middle col) @ [inner col]"
proof -
  have "fillColours s (firePath f c) = [c]" for s f c
    using fillColours_path [of s f c "[]"] by simp
  then show ?thesis
    unfolding layeredCalls_def by (simp add: fillColours_layer [OF assms])
qed

text \<open>
  C8. For every list of 2 to 4 shape instances and every palette, \<open>drawBezierFrame\<close>
  adds to the context, in this order: for each instance a white shape scaled by 1.0
  about its centroid, for each instance a black shape scaled by 0.93 about its
  centroid, for each instance a shape in the outer colour scaled by 0.84 about its
  centroid, for each instance a shape in the middle colour scaled by 0.55 about its
  base, and one shape in the inner colour, the first instance scaled by 0.3 about its
  base. The colours in force at the fills are therefore n times white, n times black,
  n times outer, n times middle and once inner, for n instances.
\<close>

theorem draw_order:
  assumes "2 \<le> length fires" and "length fires \<le> 4"
  shows "drawBezierFrame ctx fireColor fires = Inr (ctx @ layeredCalls fireColor fires)
     \<and> fillColours s (layeredCalls fireColor fires) =
         replicate (length fires) ''#ffffff'' @ replicate (length fires) ''#000000''
         @ replicate (length fires) (outer fireColor) @ replicate (length fires) (middle fireColor)
         @ [inner fireColor]"
proof -
  have "fires \<noteq> []" using assms(1) by auto
  then show ?thesis by (simp add: drawBezierFrame_calls fillColours_layered)
qed

theorem draw_order_witness:
  "2 \<le> length [seed0, seed0] \<and> length [seed0, seed0] \<le> 4
   \<and> drawBezierFrame [] (tierFireColor ! 0) [seed0, seed0]
       = Inr (layeredCalls (tierFireColor ! 0) [seed0, seed0])
   \<and> fillColours ''#000000'' (layeredCalls (tierFireColor ! 0) [seed0, seed0]) =
       [''#ffffff'', ''#ffffff'', ''#000000'', ''#000000'', ''#414141'', ''#414141'',
        ''#797979'', ''#797979'', ''#ffffff'']"
proof -
  have c: "tierFireColor ! 0 = \<lparr>outer = ''#414141'', middle = ''#797979'', inner = ''#ffffff''\<rparr>"
    by (simp add: tierFireColor_def)
  have r: "replicate (length [seed0, seed0]) v = [v, v]" for v :: string
    by (simp add: numeral_2_eq_2)
  show ?thesis
    using draw_order [of "[seed0, seed0]" "[]" "tierFireColor ! 0" "''#000000''"]
    unfolding r by (simp add: c)
qed

section \<open>Rendering\<close>

lemma seedIdx_zero: "nextIntBet g 0 (real (length bezierFireSeeds) - 1) = (0, g)"
  by (simp add: nextIntBet_def bezierFireSeeds_def)

lemma seedAt_zero: "seedAt 0 = Some (bezierFireSeeds ! 0)"
  by (simp add: seedAt_def bezierFireSeeds_def)

lemma fireLoop_total:
  "\<exists>fs g'. fireLoop is width (acc, g) = Inr (acc @ fs, g') \<and> length fs = length is"
proof (induction "is" arbitrary: acc g)
  case Nil
  then show ?case by simp
next
  case (Cons i rest)
  show ?case
  proof (cases "i > 0")
    case True
    obtain projection g2 where nt: "nextTransform (bezierFireSeeds ! 0) width g = Some (projection, g2)"
      using nextTransform_seed0 [of width g] unfolding seed0_def by blast
    obtain fs g' where
      "fireLoop rest width ((acc @ [transformBezier projection (bezierFireSeeds ! 0)]), g2) =
         Inr ((acc @ [transformBezier projection (bezierFireSeeds ! 0)]) @ fs, g')"
      "length fs = length rest"
      using Cons.IH by blast
    then show ?thesis
      using True by (simp add: seedIdx_zero seedAt_zero nt)
  next
    case False
    obtain fs g' where
      "fireLoop rest width ((acc @ [bezierFireSeeds ! 0]), g) = Inr ((acc @ [bezierFireSeeds ! 0]) @ fs, g')"
      "length fs = length rest"
      using Cons.IH by blast
    then show ?thesis
      using False by (simp add: seedIdx_zero seedAt_zero)
  qed
qed

lemma renderImage_calls:
  "\<exists>fires. (length fires = 2 \<or> length fires = 3) \<and>
     real (length fires) = fst (nextIntBet (getDeterministicRandomBy address) 2 4) \<and>
     (\<forall>ctx. renderImage ctx width height address gasUsed =
        Inr (ctx @ layeredCalls (tierFireColor ! (checkTierOf gasUsed - 1)) fires))"
proof -
  let ?g0 = "getDeterministicRandomBy address"
  obtain fireNum g1 where n: "nextIntBet ?g0 2 4 = (fireNum, g1)"
    by (cases "nextIntBet ?g0 2 4")
  have two_three: "fireNum = 2 \<or> fireNum = 3" using nextIntBet_2_4 [of ?g0] n by simp
  obtain fs g' where fl: "fireLoop [0..<nat \<lceil>fireNum\<rceil>] width ([], g1) = Inr ([] @ fs, g')"
    and len: "length fs = length [0..<nat \<lceil>fireNum\<rceil>]"
    using fireLoop_total by blast
  have l: "(length fs = 2 \<or> length fs = 3) \<and> real (length fs) = fireNum"
    using two_three len by auto
  then have "fs \<noteq> []" by auto
  then have "renderImage ctx width height address gasUsed =
        Inr (ctx @ layeredCalls (tierFireColor ! (checkTierOf gasUsed - 1)) fs)" for ctx
    using fl by (simp add: renderImage_def n palette_in_bounds drawBezierFrame_calls)
  then show ?thesis using l n by auto
qed

text \<open>
  C2 fails on the program: the instance count is \<open>nextIntBet(2, 4)\<close>, which is 2 or 3 for
  every generator state and never 4, and \<open>renderImage\<close> draws the five layers for 2 or
  for 3 instances.
\<close>

theorem instance_count_two_or_three:
  "(fst (nextIntBet g 2 4) = 2 \<or> fst (nextIntBet g 2 4) = 3)
   \<and> fst (nextIntBet g 2 4) \<noteq> 4
   \<and> (\<exists>fires. (length fires = 2 \<or> length fires = 3) \<and>
         real (length fires) = fst (nextIntBet (getDeterministicRandomBy address) 2 4) \<and>
         renderImage ctx width height address gasUsed =
           Inr (ctx @ layeredCalls (tierFireColor ! (checkTierOf gasUsed - 1)) fires))"
proof -
  have "fst (nextIntBet g 2 4) = 2 \<or> fst (nextIntBet g 2 4) = 3"
    by (rule nextIntBet_2_4)
  moreover from this have "fst (nextIntBet g 2 4) \<noteq> 4" by auto
  moreover have "\<exists>fires. (length fires = 2 \<or> length fires = 3) \<and>
         real (length fires) = fst (nextIntBet (getDeterministicRandomBy address) 2 4) \<and>
         renderImage ctx width height address gasUsed =
           Inr (ctx @ layeredCalls (tierFireColor ! (checkTierOf gasUsed - 1)) fires)"
    using renderImage_calls [of address width height gasUsed] by blast
  ultimately show ?thesis by blast
qed

text \<open>
  Every table access is in bounds: the index \<open>checkTierOf(counter) - 1\<close> of the palette
  lies inside the table of 8 palettes, the index drawn for the seed library is 0 for
  every generator state, and \<open>renderImage\<close> never reads a property of \<open>undefined\<close>.
\<close>

lemma tables_in_bounds:
  "checkTierOf gasUsed - 1 < length tierFireColor
   \<and> getTieredFireColor (checkTierOf gasUsed) = Some (tierFireColor ! (checkTierOf gasUsed - 1))
   \<and> seedAt (fst (nextIntBet g 0 (real (length bezierFireSeeds) - 1))) = Some (bezierFireSeeds ! 0)
   \<and> renderImage ctx width height address gasUsed \<noteq> Inl TypeError"
proof -
  have "checkTierOf gasUsed - 1 < length tierFireColor"
    by (rule palette_index)
  moreover have "renderImage ctx width height address gasUsed \<noteq> Inl TypeError"
    using renderImage_calls [of address width height gasUsed] by auto
  ultimately show ?thesis
    by (simp add: palette_in_bounds seedIdx_zero seedAt_zero)
qed

end
